theory Spec2Isabelle
  imports Main "HOL-Library.Log_Nat"
begin

section \<open>JavaScript numbers\<close>

text \<open>
  A JavaScript number is an IEEE 754 double. The finite ones are modelled by the
  rational they denote, next to NaN and the two infinities. The sign of zero is not
  modelled: no operation of the code below tells \<open>-0\<close> from \<open>0\<close> (both are falsy, both
  are equal under \<^verbatim>\<open>===\<close>, and no division has a zero divisor).

  Every arithmetic operation computes the exact rational result and rounds it with
  \<open>fl\<close>: to the nearest double, ties to the even significand, with gradual underflow
  below \<open>2^-1022\<close> and overflow to an infinity when the rounded magnitude reaches
  \<open>2^1024\<close> (its exponent is 1024 or more).
\<close>

datatype jsnum = NaN | PInf | NInf | Fin rat

definition pow2 :: "int \<Rightarrow> rat" where
  "pow2 k = (if 0 \<le> k then 2 ^ nat k else 1 / 2 ^ nat (- k))"

text \<open>For \<open>0 < q\<close>, \<open>ilog2 q\<close> is the exponent \<open>e\<close> with \<open>2^e \<le> q < 2^(e+1)\<close>.\<close>

definition ilog2 :: "rat \<Rightarrow> int" where
  "ilog2 q = (if 1 \<le> q then bitlen \<lfloor>q\<rfloor> - 1 else - bitlen (\<lceil>1 / q\<rceil> - 1))"

text \<open>Rounding to the nearest integer, ties to the even one.\<close>

definition rte :: "rat \<Rightarrow> int" where
  "rte q = (let f = \<lfloor>q\<rfloor>; r = q - of_int f
            in if r < 1 / 2 then f else if 1 / 2 < r then f + 1
               else if even f then f else f + 1)"

definition fl :: "rat \<Rightarrow> jsnum" where
  "fl q = (if q = 0 then Fin 0
           else let a = \<bar>q\<bar>;
                    e = max (ilog2 a) (- 1022);
                    u = pow2 (e - 52);
                    r = of_int (rte (a / u)) * u
                in if 1024 \<le> ilog2 r then (if 0 < q then PInf else NInf)
                   else Fin (if 0 < q then r else - r))"

fun fneg :: "jsnum \<Rightarrow> jsnum" where
  "fneg NaN = NaN"
| "fneg PInf = NInf"
| "fneg NInf = PInf"
| "fneg (Fin a) = Fin (- a)"

fun fadd :: "jsnum \<Rightarrow> jsnum \<Rightarrow> jsnum" where
  "fadd NaN _ = NaN"
| "fadd _ NaN = NaN"
| "fadd PInf NInf = NaN"
| "fadd NInf PInf = NaN"
| "fadd PInf _ = PInf"
| "fadd _ PInf = PInf"
| "fadd NInf _ = NInf"
| "fadd _ NInf = NInf"
| "fadd (Fin a) (Fin b) = fl (a + b)"

definition fsub :: "jsnum \<Rightarrow> jsnum \<Rightarrow> jsnum" where
  "fsub a b = fadd a (fneg b)"

definition inf_of_sign :: "bool \<Rightarrow> jsnum" where
  "inf_of_sign positive = (if positive then PInf else NInf)"

fun fmul :: "jsnum \<Rightarrow> jsnum \<Rightarrow> jsnum" where
  "fmul NaN _ = NaN"
| "fmul _ NaN = NaN"
| "fmul (Fin a) (Fin b) = fl (a * b)"
| "fmul (Fin a) PInf = (if a = 0 then NaN else inf_of_sign (0 < a))"
| "fmul (Fin a) NInf = (if a = 0 then NaN else inf_of_sign (a < 0))"
| "fmul PInf (Fin b) = (if b = 0 then NaN else inf_of_sign (0 < b))"
| "fmul NInf (Fin b) = (if b = 0 then NaN else inf_of_sign (b < 0))"
| "fmul PInf PInf = PInf"
| "fmul NInf NInf = PInf"
| "fmul PInf NInf = NInf"
| "fmul NInf PInf = NInf"

text \<open>
  Division. A zero divisor is read as \<open>+0\<close>; the code divides by the literals 2 and 4 and
  by a truthy \<^verbatim>\<open>snap\<close> only.
\<close>

fun fdiv :: "jsnum \<Rightarrow> jsnum \<Rightarrow> jsnum" where
  "fdiv NaN _ = NaN"
| "fdiv _ NaN = NaN"
| "fdiv (Fin a) (Fin b) =
     (if b = 0 then (if a = 0 then NaN else inf_of_sign (0 < a)) else fl (a / b))"
| "fdiv (Fin a) PInf = Fin 0"
| "fdiv (Fin a) NInf = Fin 0"
| "fdiv PInf (Fin b) = inf_of_sign (0 \<le> b)"
| "fdiv NInf (Fin b) = inf_of_sign (b < 0)"
| "fdiv PInf PInf = NaN"
| "fdiv PInf NInf = NaN"
| "fdiv NInf PInf = NaN"
| "fdiv NInf NInf = NaN"

text \<open>\<^verbatim>\<open>Math.floor\<close> and \<^verbatim>\<open>Math.round\<close> (halves go up); both results are doubles.\<close>

fun math_floor :: "jsnum \<Rightarrow> jsnum" where
  "math_floor (Fin a) = Fin (of_int \<lfloor>a\<rfloor>)"
| "math_floor v = v"

fun math_round :: "jsnum \<Rightarrow> jsnum" where
  "math_round (Fin a) = Fin (of_int \<lfloor>a + 1 / 2\<rfloor>)"
| "math_round v = v"

text \<open>\<^verbatim>\<open>Math.min\<close> and \<^verbatim>\<open>Math.max\<close> of two numbers.\<close>

fun math_min :: "jsnum \<Rightarrow> jsnum \<Rightarrow> jsnum" where
  "math_min NaN _ = NaN"
| "math_min _ NaN = NaN"
| "math_min NInf _ = NInf"
| "math_min _ NInf = NInf"
| "math_min PInf b = b"
| "math_min a PInf = a"
| "math_min (Fin a) (Fin b) = Fin (min a b)"

fun math_max :: "jsnum \<Rightarrow> jsnum \<Rightarrow> jsnum" where
  "math_max NaN _ = NaN"
| "math_max _ NaN = NaN"
| "math_max PInf _ = PInf"
| "math_max _ PInf = PInf"
| "math_max NInf b = b"
| "math_max a NInf = a"
| "math_max (Fin a) (Fin b) = Fin (max a b)"

text \<open>Truthiness of a number, and \<^verbatim>\<open>a || b\<close> on numbers.\<close>

fun truthy :: "jsnum \<Rightarrow> bool" where
  "truthy NaN = False"
| "truthy (Fin a) = (a \<noteq> 0)"
| "truthy _ = True"

definition js_or :: "jsnum \<Rightarrow> jsnum \<Rightarrow> jsnum" where
  "js_or a b = (if truthy a then a else b)"

text \<open>
  \<^verbatim>\<open>Number(v.toFixed(d))\<close>. \<^verbatim>\<open>toFixed\<close> prints NaN and the infinities by name, a value
  of magnitude \<open>10^21\<close> or more as \<^verbatim>\<open>String(v)\<close> (which \<^verbatim>\<open>Number\<close> reads back exactly), and
  any other value as the decimal \<open>n / 10^d\<close> nearest to it, the larger \<open>n\<close> on a tie, with
  the sign in front. \<^verbatim>\<open>Number\<close> then rounds that decimal to a double.
\<close>

fun to_fixed_number :: "nat \<Rightarrow> jsnum \<Rightarrow> jsnum" where
  "to_fixed_number d (Fin a) =
     (if 1000000000000000000000 \<le> \<bar>a\<bar> then Fin a
      else let n = \<lfloor>\<bar>a\<bar> * 10 ^ d + 1 / 2\<rfloor>
           in fl ((if a < 0 then - 1 else 1) * of_int n / 10 ^ d))"
| "to_fixed_number d v = v"

text \<open>The rationals that are doubles: rounding leaves them as they are.\<close>

definition is_double :: "rat \<Rightarrow> bool" where
  "is_double q = (fl q = Fin q)"

section \<open>The quick-room mini-game (RoomQuickEditor)\<close>

text \<open>
  The component keeps four pieces of state: the room type, the list of game items, the
  score and the burst overlay. Every handler is modelled as a function from the state
  to the next state. The values drawn from \<^verbatim>\<open>Math.random\<close> and \<^verbatim>\<open>Date.now\<close> are
  arguments of the handler: the index \<^verbatim>\<open>Math.floor(Math.random() * n)\<close> is passed as a
  natural number, the clock as the number of milliseconds.
\<close>

datatype game_emoji = Party | Sparkles | Balloon

record game_item =
  gi_id :: string
  gi_label :: string
  gi_cat :: string
  gi_born :: nat

record game_burst =
  gb_emoji :: "game_emoji option"
  gb_id :: string

record game_state =
  g_roomType :: string
  gameItems :: "game_item list"
  score :: int
  g_burst :: "game_burst option"

definition DEFAULT_ITEMS :: "(string \<times> string list) list" where
  "DEFAULT_ITEMS =
     [(''Seating'', [''Sofa'', ''Armchair'', ''Bean Bag'']),
      (''Tables'', [''Coffee Table'', ''Side Table'']),
      (''Bedroom'', [''Bed'', ''Nightstand'']),
      (''Decor'', [''Rug'', ''Painting'', ''Plant''])]"

definition game_init :: game_state where
  "game_init = \<lparr>g_roomType = ''Living Room'', gameItems = [], score = 0, g_burst = None\<rparr>"

text \<open>
  \<^verbatim>\<open>pick.replace(/\s+/g, '_')\<close>: every maximal run of white space becomes one
  underscore. The flag says that the previous character was white space.
\<close>

definition is_ws :: "char \<Rightarrow> bool" where
  "is_ws c = (c \<in> set [CHR '' '', CHR 0x09, CHR 0x0A, CHR 0x0B, CHR 0x0C, CHR 0x0D])"

fun replace_ws_from :: "bool \<Rightarrow> string \<Rightarrow> string" where
  "replace_ws_from in_run [] = []"
| "replace_ws_from in_run (c # cs) =
     (if is_ws c then (if in_run then replace_ws_from True cs
                       else CHR ''_'' # replace_ws_from True cs)
      else c # replace_ws_from False cs)"

definition replace_ws :: "string \<Rightarrow> string" where
  "replace_ws s = replace_ws_from False s"

fun digit_char :: "nat \<Rightarrow> char" where
  "digit_char n = char_of (48 + n)"

fun show_nat_aux :: "nat \<Rightarrow> nat \<Rightarrow> string \<Rightarrow> string" where
  "show_nat_aux 0 n acc = acc"
| "show_nat_aux (Suc fuel) n acc =
     (if n < 10 then digit_char n # acc
      else show_nat_aux fuel (n div 10) (digit_char (n mod 10) # acc))"

definition show_nat :: "nat \<Rightarrow> string" where
  "show_nat n = show_nat_aux (Suc n) n []"

definition emoji_table :: "game_emoji list" where
  "emoji_table = [Party, Sparkles, Balloon]"

text \<open>
  \<^verbatim>\<open>addRandomItem\<close>. The three indices are the three draws, \<open>t1\<close> and \<open>t2\<close> the two
  readings of the clock. A category or item index outside its table reads
  \<^verbatim>\<open>undefined\<close>, and the next property access throws before any state is set: the
  state is returned unchanged. An emoji index outside its table leaves the emoji
  \<^verbatim>\<open>undefined\<close> (\<open>None\<close>).
\<close>

definition addRandomItem :: "nat \<Rightarrow> nat \<Rightarrow> nat \<Rightarrow> nat \<Rightarrow> nat \<Rightarrow> game_state \<Rightarrow> game_state" where
  "addRandomItem ci pk ei t1 t2 st =
     (if ci < length DEFAULT_ITEMS then
        (let (cat, lst) = DEFAULT_ITEMS ! ci in
         if pk < length lst then
           (let pick = lst ! pk;
                ident = replace_ws pick @ ''_'' @ show_nat t1;
                newItem = \<lparr>gi_id = ident, gi_label = pick, gi_cat = cat, gi_born = t2\<rparr>
            in st\<lparr>gameItems := newItem # gameItems st,
                  score := score st + 10,
                  g_burst := Some \<lparr>gb_emoji = (if ei < length emoji_table
                                                   then Some (emoji_table ! ei) else None),
                                       gb_id = ident\<rparr>\<rparr>)
         else st)
      else st)"

definition removeItem :: "string \<Rightarrow> game_state \<Rightarrow> game_state" where
  "removeItem ident st =
     st\<lparr>gameItems := filter (\<lambda>i. gi_id i \<noteq> ident) (gameItems st),
        score := max 0 (score st - 5)\<rparr>"

definition resetGame :: "game_state \<Rightarrow> game_state" where
  "resetGame st = st\<lparr>gameItems := [], score := 0, g_burst := None\<rparr>"

datatype game_op =
    AddRandomItem nat nat nat nat nat
  | RemoveItem string
  | ResetGame
  | BurstTimeout
  | SetRoomType string

fun game_step :: "game_state \<Rightarrow> game_op \<Rightarrow> game_state" where
  "game_step st (AddRandomItem ci pk ei t1 t2) = addRandomItem ci pk ei t1 t2 st"
| "game_step st (RemoveItem ident) = removeItem ident st"
| "game_step st ResetGame = resetGame st"
| "game_step st BurstTimeout = st\<lparr>g_burst := None\<rparr>"
| "game_step st (SetRoomType t) = st\<lparr>g_roomType := t\<rparr>"

definition game_run :: "game_op list \<Rightarrow> game_state" where
  "game_run ops = foldl game_step game_init ops"

section \<open>The room builder (RoomQuickEditorNEW)\<close>

text \<open>
  Strings are byte strings in UTF-8, so an emoji is the few bytes of its code points.
  Prices and quantities are whole numbers far below \<open>2^53\<close>, where double arithmetic is
  exact: they are integers.
\<close>

record catalog_item =
  key :: string
  label :: string
  cat :: string
  icon :: string
  price :: int

record cart_item = catalog_item +
  qty :: int

record percent_pos =
  pos_x :: jsnum
  pos_y :: jsnum

record preview_item =
  p_id :: string
  p_label :: string
  p_cat :: string
  p_icon :: string
  pos :: percent_pos
  p_price :: int

record builder_state =
  roomType :: string
  previewItems :: "preview_item list"
  cart :: "cart_item list"
  burst :: "string option"

definition CATALOG :: "catalog_item list" where
  "CATALOG =
     [\<lparr>key = ''sofa'', label = ''Sofa'', cat = ''Seating'', icon = [CHR 0xF0, CHR 0x9F, CHR 0x9B, CHR 0x8B, CHR 0xEF, CHR 0xB8, CHR 0x8F], price = 299\<rparr>,
      \<lparr>key = ''armchair'', label = ''Armchair'', cat = ''Seating'', icon = [CHR 0xF0, CHR 0x9F, CHR 0xAA, CHR 0x91], price = 129\<rparr>,
      \<lparr>key = ''beanbag'', label = ''Bean Bag'', cat = ''Seating'', icon = [CHR 0xF0, CHR 0x9F, CHR 0x9F, CHR 0xA3], price = 59\<rparr>,
      \<lparr>key = ''coffeetable'', label = ''Coffee Table'', cat = ''Tables'', icon = [CHR 0xF0, CHR 0x9F, CHR 0xAA, CHR 0xB5], price = 149\<rparr>,
      \<lparr>key = ''sidetable'', label = ''Side Table'', cat = ''Tables'', icon = [CHR 0xF0, CHR 0x9F, CHR 0xAA, CHR 0x91], price = 79\<rparr>,
      \<lparr>key = ''bed'', label = ''Bed'', cat = ''Bedroom'', icon = [CHR 0xF0, CHR 0x9F, CHR 0x9B, CHR 0x8F, CHR 0xEF, CHR 0xB8, CHR 0x8F], price = 399\<rparr>,
      \<lparr>key = ''nightstand'', label = ''Nightstand'', cat = ''Bedroom'', icon = [CHR 0xF0, CHR 0x9F, CHR 0x9B, CHR 0x8B, CHR 0xEF, CHR 0xB8, CHR 0x8F], price = 89\<rparr>,
      \<lparr>key = ''rug'', label = ''Rug'', cat = ''Decor'', icon = [CHR 0xF0, CHR 0x9F, CHR 0xA7, CHR 0xB6], price = 69\<rparr>,
      \<lparr>key = ''painting'', label = ''Painting'', cat = ''Decor'', icon = [CHR 0xF0, CHR 0x9F, CHR 0x96, CHR 0xBC, CHR 0xEF, CHR 0xB8, CHR 0x8F], price = 49\<rparr>,
      \<lparr>key = ''plant'', label = ''Plant'', cat = ''Decor'', icon = [CHR 0xF0, CHR 0x9F, CHR 0xAA, CHR 0xB4], price = 39\<rparr>,
      \<lparr>key = ''tv'', label = ''TV'', cat = ''Electronics'', icon = [CHR 0xF0, CHR 0x9F, CHR 0x93, CHR 0xBA], price = 499\<rparr>,
      \<lparr>key = ''lamp'', label = ''Lamp'', cat = ''Lighting'', icon = [CHR 0xF0, CHR 0x9F, CHR 0x92, CHR 0xA1], price = 29\<rparr>]"

definition builder_init :: builder_state where
  "builder_init = \<lparr>roomType = ''Living Room'', previewItems = [], cart = [], burst = None\<rparr>"

subsection \<open>The cart\<close>

text \<open>\<^verbatim>\<open>{ ...catalogItem, qty: 1 }\<close>\<close>

definition with_qty :: "catalog_item \<Rightarrow> int \<Rightarrow> cart_item" where
  "with_qty ci n = \<lparr>key = key ci, label = label ci, cat = cat ci, icon = icon ci,
                    price = price ci, qty = n\<rparr>"

definition addToCart :: "catalog_item \<Rightarrow> builder_state \<Rightarrow> builder_state" where
  "addToCart catalogItem st =
     st\<lparr>cart := (case find (\<lambda>p. key p = key catalogItem) (cart st) of
                   Some existing \<Rightarrow>
                     map (\<lambda>p. if key p = key catalogItem then p\<lparr>qty := qty p + 1\<rparr> else p) (cart st)
                 | None \<Rightarrow> with_qty catalogItem 1 # cart st),
        burst := Some [CHR 0xF0, CHR 0x9F, CHR 0x9B, CHR 0x92]\<rparr>"

definition removeFromCart :: "string \<Rightarrow> builder_state \<Rightarrow> builder_state" where
  "removeFromCart k st = st\<lparr>cart := filter (\<lambda>i. key i \<noteq> k) (cart st)\<rparr>"

text \<open>The two quantity buttons of the cart row of key \<open>k\<close>.\<close>

definition decrementQty :: "string \<Rightarrow> builder_state \<Rightarrow> builder_state" where
  "decrementQty k st =
     st\<lparr>cart := map (\<lambda>p. if key p = k then p\<lparr>qty := max 1 (qty p - 1)\<rparr> else p) (cart st)\<rparr>"

definition incrementQty :: "string \<Rightarrow> builder_state \<Rightarrow> builder_state" where
  "incrementQty k st =
     st\<lparr>cart := map (\<lambda>p. if key p = k then p\<lparr>qty := qty p + 1\<rparr> else p) (cart st)\<rparr>"

definition cartTotal :: "builder_state \<Rightarrow> int" where
  "cartTotal st = foldl (\<lambda>s it. s + price it * qty it) 0 (cart st)"

subsection \<open>Placing the cart in the preview\<close>

text \<open>
  What one created item reads from the outside: the clock, the four characters
  \<^verbatim>\<open>Math.random().toString(36).slice(2,6)\<close> of its identifier, and the two draws of
  \<^verbatim>\<open>randomPos\<close>. The random source gives the reading of the \<open>n\<close>-th created item.
\<close>

record draw =
  now :: nat
  suffix :: string
  rand_x :: jsnum
  rand_y :: jsnum

definition randomPos :: "jsnum \<Rightarrow> jsnum \<Rightarrow> percent_pos" where
  "randomPos rx ry =
     \<lparr>pos_x = fadd (math_floor (fmul rx (Fin 80))) (Fin 10),
      pos_y = fadd (math_floor (fmul ry (Fin 70))) (Fin 15)\<rparr>"

definition create_item :: "cart_item \<Rightarrow> draw \<Rightarrow> preview_item" where
  "create_item ci d =
     \<lparr>p_id = key ci @ ''_'' @ show_nat (now d) @ ''_'' @ suffix d,
      p_label = label ci, p_cat = cat ci, p_icon = icon ci,
      pos = randomPos (rand_x d) (rand_y d), p_price = price ci\<rparr>"

text \<open>
  The two nested loops: \<open>n\<close> counts the items created so far; the inner loop runs
  \<open>qty\<close> times (not at all for a quantity below 1).
\<close>

fun create_copies :: "cart_item \<Rightarrow> (nat \<Rightarrow> draw) \<Rightarrow> nat \<Rightarrow> nat \<Rightarrow> preview_item list" where
  "create_copies ci src n 0 = []"
| "create_copies ci src n (Suc k) = create_item ci (src n) # create_copies ci src (Suc n) k"

fun create_all :: "cart_item list \<Rightarrow> (nat \<Rightarrow> draw) \<Rightarrow> nat \<Rightarrow> preview_item list" where
  "create_all [] src n = []"
| "create_all (ci # rest) src n =
     create_copies ci src n (nat (qty ci)) @ create_all rest src (n + nat (qty ci))"

definition addAllCartToRoom :: "(nat \<Rightarrow> draw) \<Rightarrow> builder_state \<Rightarrow> builder_state" where
  "addAllCartToRoom src st =
     (if length (cart st) = 0 then st
      else st\<lparr>previewItems := create_all (cart st) src 0 @ previewItems st,
              cart := [],
              burst := Some [CHR 0xE2, CHR 0x9C, CHR 0xA8]\<rparr>)"


definition resetAll :: "builder_state \<Rightarrow> builder_state" where
  "resetAll st = st\<lparr>previewItems := [], cart := [], burst := None\<rparr>"

subsection \<open>Local storage\<close>

text \<open>
  The browser side: the key/value store and the console. \<^verbatim>\<open>localStorage\<close> throws when
  access is denied, and \<^verbatim>\<open>setItem\<close> throws when the value does not fit the quota left.
  \<^verbatim>\<open>JSON.stringify\<close> and \<^verbatim>\<open>JSON.parse\<close> belong to the runtime, not to the repository:
  the handlers take them as arguments; either may throw.
\<close>

datatype js_error = SecurityError | QuotaExceededError | SyntaxError | TypeError

record browser =
  storage :: "string \<rightharpoonup> string"
  access_denied :: bool
  quota :: nat
  console :: "(string \<times> js_error) list"

definition getItem :: "browser \<Rightarrow> string \<Rightarrow> js_error + string option" where
  "getItem br k = (if access_denied br then Inl SecurityError else Inr (storage br k))"

definition setItem :: "browser \<Rightarrow> string \<Rightarrow> string \<Rightarrow> js_error + browser" where
  "setItem br k v =
     (if access_denied br then Inl SecurityError
      else if quota br < length k + length v then Inl QuotaExceededError
      else Inr (br\<lparr>storage := (storage br)(k \<mapsto> v)\<rparr>))"

definition storage_key :: "string \<Rightarrow> string" where
  "storage_key t = ''rdh_quick_'' @ t"

text \<open>
  The load effect, run on mount and whenever the room type changes. An empty string is
  falsy, like a missing entry.
\<close>

definition load_effect ::
  "(string \<Rightarrow> js_error + preview_item list) \<Rightarrow> browser \<Rightarrow> builder_state \<Rightarrow> builder_state" where
  "load_effect parse br st =
     (case getItem br (storage_key (roomType st)) of
        Inl e \<Rightarrow> st
      | Inr None \<Rightarrow> st
      | Inr (Some raw) \<Rightarrow>
          (if raw = [] then st
           else (case parse raw of
                   Inl e \<Rightarrow> st
                 | Inr items \<Rightarrow> st\<lparr>previewItems := items\<rparr>)))"

definition savePreviewToLocal ::
  "(preview_item list \<Rightarrow> js_error + string) \<Rightarrow> browser \<times> builder_state
     \<Rightarrow> browser \<times> builder_state" where
  "savePreviewToLocal stringify bs =
     (let (br, st) = bs in
      case stringify (previewItems st) of
        Inl e \<Rightarrow> (br\<lparr>console := console br @ [(''persist failed'', e)]\<rparr>, st)
      | Inr text \<Rightarrow>
          (case setItem br (storage_key (roomType st)) text of
             Inl e \<Rightarrow> (br\<lparr>console := console br @ [(''persist failed'', e)]\<rparr>, st)
           | Inr br' \<Rightarrow> (br', st\<lparr>burst := Some [CHR 0xF0, CHR 0x9F, CHR 0x92, CHR 0xBE]\<rparr>)))"


subsection \<open>Draws and placed items\<close>

text \<open>
  A draw of \<^verbatim>\<open>Math.random\<close> is a double \<open>q\<close> with \<open>0 \<le> q < 1\<close>. A placed item is inside
  the preview when its position is a pair of whole numbers, \<open>x\<close> from 10 to 89 and \<open>y\<close>
  from 15 to 84.
\<close>

definition unit_draw :: "jsnum \<Rightarrow> bool" where
  "unit_draw v = (case v of Fin q \<Rightarrow> 0 \<le> q \<and> q < 1 \<and> is_double q | _ \<Rightarrow> False)"

definition whole_between :: "int \<Rightarrow> int \<Rightarrow> jsnum \<Rightarrow> bool" where
  "whole_between lo hi v =
     (case v of Fin a \<Rightarrow> of_int \<lfloor>a\<rfloor> = a \<and> of_int lo \<le> a \<and> a \<le> of_int hi | _ \<Rightarrow> False)"

definition placed_inside :: "preview_item \<Rightarrow> bool" where
  "placed_inside it = (whole_between 10 89 (pos_x (pos it)) \<and> whole_between 15 84 (pos_y (pos it)))"

subsection \<open>Well-formed carts\<close>

text \<open>Every entry has a quantity of at least one, and no key occurs twice.\<close>

definition cart_wf :: "cart_item list \<Rightarrow> bool" where
  "cart_wf c = (distinct (map key c) \<and> list_all (\<lambda>e. 1 \<le> qty e) c)"

subsection \<open>The JSON text of the preview items\<close>

































subsection \<open>Lists that the component can hold\<close>



subsection \<open>The handlers as events\<close>







section \<open>The 3D viewer (ThreeDViewer)\<close>

subsection \<open>Values of layout fields\<close>

text \<open>
  A field of a room record is any JavaScript value; \<^verbatim>\<open>Number(v)\<close> converts it. The
  conversion of a string is the runtime's, passed as \<open>sn\<close> wherever \<^verbatim>\<open>Number\<close> is
  applied to a field. Objects as field values are not modelled.
\<close>

datatype jsval = JUndefined | JNull | JBool bool | JNum jsnum | JStr string

fun to_number :: "(string \<Rightarrow> jsnum) \<Rightarrow> jsval \<Rightarrow> jsnum" where
  "to_number sn JUndefined = NaN"
| "to_number sn JNull = Fin 0"
| "to_number sn (JBool b) = Fin (if b then 1 else 0)"
| "to_number sn (JNum n) = n"
| "to_number sn (JStr s) = sn s"

text \<open>
  A room of the layout. \<open>r_rotationY\<close> and \<open>r_scale\<close> are numbers when present
  (\<open>None\<close> is \<^verbatim>\<open>undefined\<close>).
\<close>

record room =
  r_name :: string
  r_size :: jsval
  r_x :: jsval
  r_y :: jsval
  r_rotationY :: "jsnum option"
  r_scale :: "jsnum option"

record layout =
  rooms :: "room list option"

text \<open>\<^verbatim>\<open>layout.rooms || []\<close>\<close>

definition rooms_of :: "layout \<Rightarrow> room list" where
  "rooms_of l = (case rooms l of None \<Rightarrow> [] | Some rs \<Rightarrow> rs)"

record vec3 =
  vx :: jsnum
  vy :: jsnum
  vz :: jsnum

text \<open>The scene-graph group of a room, and \<^verbatim>\<open>groupRefs.current\<close>: room name to group.\<close>

record group3d =
  g_position :: vec3
  g_rotation :: vec3
  g_scale :: vec3

type_synonym group_refs = "string \<rightharpoonup> group3d"

subsection \<open>The layout-sync effect\<close>

text \<open>The body of the \<^verbatim>\<open>forEach\<close>: one room, when its group is mounted.\<close>

definition sync_room :: "(string \<Rightarrow> jsnum) \<Rightarrow> group_refs \<Rightarrow> room \<Rightarrow> group_refs" where
  "sync_room sn refs r =
     (case refs (r_name r) of
        None \<Rightarrow> refs
      | Some g \<Rightarrow>
          (let sz = js_or (to_number sn (r_size r)) (Fin 3);
               g1 = g\<lparr>g_position :=
                       \<lparr>vx = fadd (to_number sn (r_x r)) (fdiv sz (Fin 2)),
                        vy = Fin 0,
                        vz = fadd (to_number sn (r_y r)) (fdiv sz (Fin 2))\<rparr>\<rparr>;
               g2 = (case r_rotationY r of
                       None \<Rightarrow> g1
                     | Some a \<Rightarrow> g1\<lparr>g_rotation := \<lparr>vx = Fin 0, vy = a, vz = Fin 0\<rparr>\<rparr>);
               g3 = (case r_scale r of
                       None \<Rightarrow> g2
                     | Some c \<Rightarrow> g2\<lparr>g_scale := \<lparr>vx = c, vy = c, vz = c\<rparr>\<rparr>)
           in refs(r_name r \<mapsto> g3)))"

definition layout_sync :: "(string \<Rightarrow> jsnum) \<Rightarrow> layout \<Rightarrow> group_refs \<Rightarrow> group_refs" where
  "layout_sync sn l refs = foldl (sync_room sn) refs (rooms_of l)"

subsection \<open>The transform-end handler\<close>

record transform_result =
  t_x :: jsnum
  t_y :: jsnum
  t_rotationY :: jsnum
  t_scale :: jsnum

definition snapTo :: "jsnum \<Rightarrow> jsnum \<Rightarrow> jsnum" where
  "snapTo snap v = (if truthy snap then fmul (math_round (fdiv v snap)) snap else v)"

text \<open>
  \<^verbatim>\<open>onMouseUp\<close>. The result is the call of \<^verbatim>\<open>onTransformEnd\<close> it makes, if any: it
  returns early without a selected room name (\<^verbatim>\<open>undefined\<close> or the empty string) or
  without a mounted group, and makes no call when the callback is absent.
\<close>

definition onMouseUp ::
  "(string \<Rightarrow> jsnum) \<Rightarrow> string option \<Rightarrow> group_refs \<Rightarrow> layout \<Rightarrow> jsnum \<Rightarrow> bool
     \<Rightarrow> (string \<times> transform_result) option" where
  "onMouseUp sn selectedRoomName refs l snap has_onTransformEnd =
     (case selectedRoomName of
        None \<Rightarrow> None
      | Some nm \<Rightarrow>
          if nm = [] then None
          else (case refs nm of
                  None \<Rightarrow> None
                | Some grp \<Rightarrow>
                    (let roomDef = find (\<lambda>r. r_name r = nm) (rooms_of l);
                         sz = js_or (to_number sn (case roomDef of
                                                       None \<Rightarrow> JUndefined
                                                     | Some r \<Rightarrow> r_size r)) (Fin 3);
                         newX = to_fixed_number 3 (fsub (vx (g_position grp)) (fdiv sz (Fin 2)));
                         newY = to_fixed_number 3 (fsub (vz (g_position grp)) (fdiv sz (Fin 2)));
                         rotationY = to_fixed_number 5 (js_or (vy (g_rotation grp)) (Fin 0));
                         scale = to_fixed_number 5 (js_or (vx (g_scale grp)) (Fin 1))
                     in if has_onTransformEnd
                        then Some (nm, \<lparr>t_x = snapTo snap newX, t_y = snapTo snap newY,
                                        t_rotationY = rotationY, t_scale = scale\<rparr>)
                        else None)))"

subsection \<open>glTF models and the room interior\<close>

text \<open>
  Each model is loaded inside \<^verbatim>\<open>try\<close>/\<^verbatim>\<open>catch\<close>: a loader that throws gives \<^verbatim>\<open>null\<close>.
\<close>

datatype gltf = Gltf string

datatype load_outcome = Returned gltf | Threw

fun try_load :: "load_outcome \<Rightarrow> gltf option" where
  "try_load (Returned g) = Some g"
| "try_load Threw = None"

record models =
  sofaGltf :: "gltf option"
  tvGltf :: "gltf option"
  toiletGltf :: "gltf option"
  bedGltf :: "gltf option"

definition load_models :: "(string \<Rightarrow> load_outcome) \<Rightarrow> models" where
  "load_models useLoader =
     \<lparr>sofaGltf = try_load (useLoader ''/models/sofa.glb''),
      tvGltf = try_load (useLoader ''/models/tv.glb''),
      toiletGltf = try_load (useLoader ''/models/toilet.glb''),
      bedGltf = try_load (useLoader ''/models/bed.glb'')\<rparr>"

text \<open>
  Each of the four loads sits in \<^verbatim>\<open>useMemo\<close> with an empty dependency list: the first
  render computes the value and stores it in the hook's cell, every later render returns
  the stored value and computes nothing.
\<close>

definition useMemo :: "'a option \<Rightarrow> 'a \<Rightarrow> 'a \<times> 'a option" where
  "useMemo cell v = (case cell of Some c \<Rightarrow> (c, Some c) | None \<Rightarrow> (v, Some v))"

record memo_cells =
  sofa_cell :: "gltf option option"
  tv_cell :: "gltf option option"
  toilet_cell :: "gltf option option"
  bed_cell :: "gltf option option"

definition first_render :: memo_cells where
  "first_render = \<lparr>sofa_cell = None, tv_cell = None, toilet_cell = None, bed_cell = None\<rparr>"

text \<open>The models of one render of \<^verbatim>\<open>SceneInner\<close>, and the cells it leaves behind.\<close>

definition use_models :: "(string \<Rightarrow> load_outcome) \<Rightarrow> memo_cells \<Rightarrow> models \<times> memo_cells" where
  "use_models useLoader cells =
     (let (sofa, c1) = useMemo (sofa_cell cells) (try_load (useLoader ''/models/sofa.glb''));
          (tv, c2) = useMemo (tv_cell cells) (try_load (useLoader ''/models/tv.glb''));
          (toilet, c3) = useMemo (toilet_cell cells) (try_load (useLoader ''/models/toilet.glb''));
          (bed, c4) = useMemo (bed_cell cells) (try_load (useLoader ''/models/bed.glb''))
      in (\<lparr>sofaGltf = sofa, tvGltf = tv, toiletGltf = toilet, bedGltf = bed\<rparr>,
          \<lparr>sofa_cell = c1, tv_cell = c2, toilet_cell = c3, bed_cell = c4\<rparr>))"

text \<open>
  The procedural prefabs that stand in a slot where a model may be, with their
  dimensions; a slot holds the clone of the loaded scene at a scale, or the prefab.
\<close>

datatype prefab = Toilet | TV jsnum jsnum | Sofa jsnum jsnum

datatype slot = Primitive gltf rat | Procedural prefab

definition model_or :: "gltf option \<Rightarrow> rat \<Rightarrow> prefab \<Rightarrow> slot" where
  "model_or m k p = (case m of Some g \<Rightarrow> Primitive g k | None \<Rightarrow> Procedural p)"

text \<open>
  The furniture of a room, chosen by its lower-cased name. Of every branch the slots
  that may hold a model are kept; its other meshes (all procedural) are not modelled.
\<close>

datatype furniture =
    Bath slot
  | Living slot
  | MasterBedroom
  | Kitchen
  | GenericRoom slot slot

fun starts_with :: "string \<Rightarrow> string \<Rightarrow> bool" where
  "starts_with [] s = True"
| "starts_with (p # ps) [] = False"
| "starts_with (p # ps) (c # cs) = (p = c \<and> starts_with ps cs)"

text \<open>\<^verbatim>\<open>/p/.test(s)\<close> for a pattern without operators: \<open>p\<close> occurs in \<open>s\<close>.\<close>

fun includes_str :: "string \<Rightarrow> string \<Rightarrow> bool" where
  "includes_str p [] = (p = [])"
| "includes_str p (c # cs) = (starts_with p (c # cs) \<or> includes_str p cs)"

definition test_any :: "string list \<Rightarrow> string \<Rightarrow> bool" where
  "test_any alternatives s = list_ex (\<lambda>p. includes_str p s) alternatives"

text \<open>\<^verbatim>\<open>toLowerCase\<close> on ASCII letters; other characters are left as they are.\<close>

definition lower_char :: "char \<Rightarrow> char" where
  "lower_char c =
     (case map_of (zip ''ABCDEFGHIJKLMNOPQRSTUVWXYZ'' ''abcdefghijklmnopqrstuvwxyz'') c of
        Some d \<Rightarrow> d
      | None \<Rightarrow> c)"

definition toLowerCase :: "string \<Rightarrow> string" where
  "toLowerCase s = map lower_char s"

definition furniture_for :: "models \<Rightarrow> jsnum \<Rightarrow> string \<Rightarrow> furniture" where
  "furniture_for ms sz nm =
     (if test_any [''bath'', ''toilet'', ''wc''] nm then
        Bath (model_or (toiletGltf ms) (7 / 10) Toilet)
      else if test_any [''living'', ''lounge'', ''living room'', ''family''] nm then
        Living (model_or (tvGltf ms) (7 / 10)
                  (TV (math_min (fl (14 / 10)) (fmul sz (fl (6 / 10))))
                      (math_min (fl (8 / 10)) (fmul sz (fl (35 / 100))))))
      else if test_any [''master suite'', ''master bedroom''] nm then MasterBedroom
      else if test_any [''kitchen''] nm then Kitchen
      else GenericRoom
             (model_or (sofaGltf ms) (1 / 2) (Sofa (fmul sz (fl (6 / 10))) (fl (7 / 10))))
             (model_or (tvGltf ms) (1 / 2)
                (TV (math_min (fl (12 / 10)) (fmul sz (fl (5 / 10)))) (fl (6 / 10)))))"

text \<open>
  \<^verbatim>\<open>RoomInterior\<close>: the walls (an inset box and baseboards computed from the size) are
  always there; the furniture only when the render mode is \<^verbatim>\<open>'furnished'\<close>.
\<close>

record interior =
  i_size :: jsnum
  i_selected :: bool
  i_furniture :: "furniture option"

definition RoomInterior ::
  "(string \<Rightarrow> jsnum) \<Rightarrow> models \<Rightarrow> string \<Rightarrow> room \<Rightarrow> bool \<Rightarrow> interior" where
  "RoomInterior sn ms renderMode rm isSelected =
     (let sz = js_or (to_number sn (r_size rm)) (Fin 3);
          nm = toLowerCase (r_name rm)
      in \<lparr>i_size = sz, i_selected = isSelected,
          i_furniture = (if renderMode = ''furnished''
                         then Some (furniture_for ms sz nm) else None)\<rparr>)"

subsection \<open>The per-room render loop\<close>

text \<open>
  What the loop produces for a room: the schematic group (the blue box, orange when
  selected, and the name label) or the furnished group (the interior and the label),
  wrapped in transform controls when the room is selected. The placeholders of
  \<^verbatim>\<open>externalFurniture\<close> inside the furnished group are not modelled.
\<close>

record schematic_group =
  sg_key :: string
  sg_position :: vec3
  sg_box :: jsnum
  sg_color :: string
  sg_label :: string

record furnished_group =
  fg_key :: string
  fg_position :: vec3
  fg_interior :: interior
  fg_label :: string

datatype group_contents = SchematicGroup schematic_group | FurnishedGroup furnished_group

datatype scene_node = Bare group_contents | TransformControls string string group_contents

definition render_room ::
  "(string \<Rightarrow> jsnum) \<Rightarrow> models \<Rightarrow> string \<Rightarrow> string option \<Rightarrow> string \<Rightarrow> room
     \<Rightarrow> scene_node" where
  "render_room sn ms renderMode selectedRoomName mode rm =
     (let sz = js_or (to_number sn (r_size rm)) (Fin 3);
          centerX = fadd (to_number sn (r_x rm)) (fdiv sz (Fin 2));
          centerZ = fadd (to_number sn (r_y rm)) (fdiv sz (Fin 2));
          isSelected = (selectedRoomName = Some (r_name rm));
          schematic = SchematicGroup
            \<lparr>sg_key = r_name rm @ ''-schematic'',
             sg_position = \<lparr>vx = centerX, vy = Fin 0, vz = centerZ\<rparr>,
             sg_box = sz,
             sg_color = (if isSelected then ''#ff8c42'' else ''#2aa3ff''),
             sg_label = r_name rm\<rparr>;
          furnished = FurnishedGroup
            \<lparr>fg_key = r_name rm @ ''-furnished'',
             fg_position = \<lparr>vx = centerX, vy = Fin 0, vz = centerZ\<rparr>,
             fg_interior = RoomInterior sn ms renderMode rm isSelected,
             fg_label = r_name rm\<rparr>;
          contents = (if renderMode = ''schematic'' then schematic else furnished)
      in if isSelected then TransformControls (r_name rm @ ''-tc'') mode contents
         else Bare contents)"

definition SceneInner ::
  "(string \<Rightarrow> jsnum) \<Rightarrow> models \<Rightarrow> string \<Rightarrow> string option \<Rightarrow> string \<Rightarrow> layout
     \<Rightarrow> scene_node list" where
  "SceneInner sn ms renderMode selectedRoomName mode l =
     map (render_room sn ms renderMode selectedRoomName mode) (rooms_of l)"

fun contents_of :: "scene_node \<Rightarrow> group_contents" where
  "contents_of (Bare c) = c"
| "contents_of (TransformControls k m c) = c"

text \<open>Reading a produced group: which kind it is, and where it stands.\<close>

fun is_schematic :: "group_contents \<Rightarrow> bool" where
  "is_schematic (SchematicGroup g) = True"
| "is_schematic (FurnishedGroup g) = False"

fun position_of :: "group_contents \<Rightarrow> vec3" where
  "position_of (SchematicGroup g) = sg_position g"
| "position_of (FurnishedGroup g) = fg_position g"

text \<open>The furniture of a produced group (none for a schematic group).\<close>

fun furniture_of :: "group_contents \<Rightarrow> furniture option" where
  "furniture_of (SchematicGroup g) = None"
| "furniture_of (FurnishedGroup g) = i_furniture (fg_interior g)"

text \<open>The slots of a furniture that may hold a model, and whether one holds the prefab.\<close>

fun slots_of :: "furniture \<Rightarrow> slot list" where
  "slots_of (Bath a) = [a]"
| "slots_of (Living a) = [a]"
| "slots_of MasterBedroom = []"
| "slots_of Kitchen = []"
| "slots_of (GenericRoom a b) = [a, b]"

fun is_procedural :: "slot \<Rightarrow> bool" where
  "is_procedural (Procedural p) = True"
| "is_procedural (Primitive g k) = False"

subsection \<open>The render mode of the viewer\<close>

text \<open>
  \<^verbatim>\<open>ThreeDViewer\<close> holds the render mode as state, starts it at \<^verbatim>\<open>'furnished'\<close>, sets it
  from its two buttons and passes it to \<^verbatim>\<open>SceneInner\<close>.
\<close>

record viewer_state =
  v_renderMode :: string
  v_previewImg :: "string option"

definition viewer_init :: viewer_state where
  "viewer_init = \<lparr>v_renderMode = ''furnished'', v_previewImg = None\<rparr>"

datatype viewer_event = ClickFurnished | ClickSchematic | SetPreview "string option"

fun viewer_step :: "viewer_state \<Rightarrow> viewer_event \<Rightarrow> viewer_state" where
  "viewer_step st ClickFurnished = st\<lparr>v_renderMode := ''furnished''\<rparr>"
| "viewer_step st ClickSchematic = st\<lparr>v_renderMode := ''schematic''\<rparr>"
| "viewer_step st (SetPreview p) = st\<lparr>v_previewImg := p\<rparr>"

definition viewer_run :: "viewer_event list \<Rightarrow> viewer_state" where
  "viewer_run evs = foldl viewer_step viewer_init evs"

text \<open>
  What the viewer shows depends on \<^verbatim>\<open>modelPath\<close> (\<open>None\<close> when it is not a string): a path
  ending in \<^verbatim>\<open>.glb\<close> or \<^verbatim>\<open>.gltf\<close> shows that model, in wireframe when the mode is
  \<^verbatim>\<open>'schematic'\<close> and with the cultural elements around it otherwise; a path starting with
  \<^verbatim>\<open>demo-exterior\<close> or \<^verbatim>\<open>demo-culture\<close> shows the demo scene of that name, schematic or
  not; anything else shows the rooms through \<^verbatim>\<open>SceneInner\<close>, the rooms of \<open>demoLayout\<close>
  for a path starting with \<^verbatim>\<open>demo\<close> and those of the layout otherwise.
\<close>

definition ends_with :: "string \<Rightarrow> string \<Rightarrow> bool" where
  "ends_with ending s = starts_with (rev ending) (rev s)"

definition isGLTF :: "string option \<Rightarrow> bool" where
  "isGLTF modelPath =
     (case modelPath of
        None \<Rightarrow> False
      | Some p \<Rightarrow> ends_with ''.glb'' (toLowerCase p) \<or> ends_with ''.gltf'' (toLowerCase p))"

definition demoLayout :: layout where
  "demoLayout =
     \<lparr>rooms = Some
        [\<lparr>r_name = ''Living Room'', r_size = JNum (Fin 5), r_x = JNum (Fin 0),
          r_y = JNum (Fin 0), r_rotationY = None, r_scale = None\<rparr>,
         \<lparr>r_name = ''Kitchen'', r_size = JNum (Fin (9 / 2)), r_x = JNum (Fin (11 / 2)),
          r_y = JNum (Fin 0), r_rotationY = None, r_scale = None\<rparr>,
         \<lparr>r_name = ''Master Suite'', r_size = JNum (Fin (9 / 2)), r_x = JNum (Fin 0),
          r_y = JNum (Fin (11 / 2)), r_rotationY = None, r_scale = None\<rparr>]\<rparr>"

definition shown_layout :: "string option \<Rightarrow> layout \<Rightarrow> layout" where
  "shown_layout modelPath l =
     (case modelPath of
        None \<Rightarrow> l
      | Some p \<Rightarrow> if starts_with ''demo'' p then demoLayout else l)"

record gltf_view =
  gv_url :: string
  gv_wireframe :: bool
  gv_cultural :: bool

datatype viewer_view =
    GltfView gltf_view
  | DemoExterior bool
  | DemoCulture bool
  | RoomsScene "scene_node list"

definition viewer_scene ::
  "(string \<Rightarrow> jsnum) \<Rightarrow> models \<Rightarrow> viewer_state \<Rightarrow> string option \<Rightarrow> string option \<Rightarrow> string
     \<Rightarrow> layout \<Rightarrow> viewer_view" where
  "viewer_scene sn ms st modelPath selectedRoomName mode l =
     (case modelPath of
        None \<Rightarrow> RoomsScene (SceneInner sn ms (v_renderMode st) selectedRoomName mode
                              (shown_layout modelPath l))
      | Some p \<Rightarrow>
          if isGLTF modelPath then
            GltfView \<lparr>gv_url = p, gv_wireframe = (v_renderMode st = ''schematic''),
                      gv_cultural = (v_renderMode st \<noteq> ''schematic'')\<rparr>
          else if starts_with ''demo-exterior'' p then
            DemoExterior (v_renderMode st = ''schematic'')
          else if starts_with ''demo-culture'' p then
            DemoCulture (v_renderMode st = ''schematic'')
          else RoomsScene (SceneInner sn ms (v_renderMode st) selectedRoomName mode
                             (shown_layout modelPath l)))"

section \<open>Properties of the mini-game\<close>

lemma game_step_score_nonneg: "0 \<le> score st \<Longrightarrow> 0 \<le> score (game_step st op)"
  by (cases op) (auto simp: addRandomItem_def removeItem_def resetGame_def Let_def split: prod.splits)

lemma foldl_game_step_score_nonneg:
  "0 \<le> score st \<Longrightarrow> 0 \<le> score (foldl game_step st ops)"
  by (induction ops arbitrary: st) (simp_all add: game_step_score_nonneg)

text \<open>
  Claim C9. The score starts at 0; \<open>addRandomItem\<close> adds 10 (for draws inside the
  tables, the only ones \<^verbatim>\<open>Math.random\<close> produces), \<open>removeItem\<close> subtracts 5 and
  clamps at 0, \<open>resetGame\<close> sets 0; so the score is never negative in a state reached
  from the initial one by any sequence of handlers.
\<close>

theorem score_nonnegative:
  "score game_init = 0
   \<and> score (addRandomItem ci pk ei t1 t2 st) =
       (if ci < length DEFAULT_ITEMS \<and> pk < length (snd (DEFAULT_ITEMS ! ci))
        then score st + 10 else score st)
   \<and> score (removeItem ident st) = max 0 (score st - 5)
   \<and> score (resetGame st) = 0
   \<and> 0 \<le> score (game_run ops)"
proof -
  have "0 \<le> score (game_run ops)"
    unfolding game_run_def by (rule foldl_game_step_score_nonneg) (simp add: game_init_def)
  moreover have "score (addRandomItem ci pk ei t1 t2 st) =
       (if ci < length DEFAULT_ITEMS \<and> pk < length (snd (DEFAULT_ITEMS ! ci))
        then score st + 10 else score st)"
    by (simp add: addRandomItem_def Let_def split: prod.splits)
  ultimately show ?thesis
    by (simp add: game_init_def removeItem_def resetGame_def)
qed

section \<open>Properties of the room builder\<close>

lemma map_key_update_qty:
  "map key (map (\<lambda>p. if P p then p\<lparr>qty := g p\<rparr> else p) c) = map key c"
  by (induction c) auto

lemma list_all_update_qty:
  assumes "list_all (\<lambda>e. 1 \<le> qty e) c" and "\<And>p. 1 \<le> qty p \<Longrightarrow> 1 \<le> g p"
  shows "list_all (\<lambda>e. 1 \<le> qty e) (map (\<lambda>p. if P p then p\<lparr>qty := g p\<rparr> else p) c)"
  using assms by (induction c) auto

lemma cart_wf_update_qty:
  assumes "cart_wf c" and "\<And>p. 1 \<le> qty p \<Longrightarrow> 1 \<le> g p"
  shows "cart_wf (map (\<lambda>p. if P p then p\<lparr>qty := g p\<rparr> else p) c)"
  using assms unfolding cart_wf_def map_key_update_qty
  by (auto intro: list_all_update_qty)

lemma cart_wf_filter: "cart_wf c \<Longrightarrow> cart_wf (filter P c)"
  by (induction c) (auto simp: cart_wf_def)

lemma cart_wf_cons_new:
  assumes "cart_wf c" and "find (\<lambda>p. key p = key ci) c = None"
  shows "cart_wf (with_qty ci 1 # c)"
proof -
  from assms(2) have "key ci \<notin> set (map key c)"
    by (auto simp: find_None_iff)
  with assms(1) show ?thesis
    by (simp add: cart_wf_def with_qty_def)
qed

lemma cart_wf_addToCart: "cart_wf (cart st) \<Longrightarrow> cart_wf (cart (addToCart ci st))"
  by (cases "find (\<lambda>p. key p = key ci) (cart st)")
     (simp_all add: addToCart_def cart_wf_cons_new cart_wf_update_qty)

lemma addToCart_merges:
  assumes "key ci \<in> set (map key (cart st))"
  shows "cart (addToCart ci st) =
           map (\<lambda>p. if key p = key ci then p\<lparr>qty := qty p + 1\<rparr> else p) (cart st)"
proof -
  from assms obtain e where "find (\<lambda>p. key p = key ci) (cart st) = Some e"
    by (cases "find (\<lambda>p. key p = key ci) (cart st)") (auto simp: find_None_iff)
  then show ?thesis by (simp add: addToCart_def)
qed

lemma addToCart_new:
  assumes "key ci \<notin> set (map key (cart st))"
  shows "cart (addToCart ci st) = with_qty ci 1 # cart st"
proof -
  from assms have "find (\<lambda>p. key p = key ci) (cart st) = None"
    by (force simp: find_None_iff)
  then show ?thesis by (simp add: addToCart_def)
qed

text \<open>
  Claim C8. A cart is well formed when every quantity is at least 1 and no key occurs
  twice. The empty initial cart is well formed, and every cart operation keeps a
  well-formed cart well formed, doing what its name says: \<open>addToCart\<close> adds 1 to the
  quantity of the entry whose key is already present and leaves every other entry alone,
  or puts a new entry of quantity 1 in front when the key is new; the decrement button
  replaces the quantity \<open>q\<close> of the entry of its key by \<open>max 1 (q - 1)\<close>; the increment
  button replaces it by \<open>q + 1\<close>; \<open>removeFromCart\<close> keeps exactly the entries of the other
  keys; \<open>addAllCartToRoom\<close> and \<open>resetAll\<close> leave the cart empty.
\<close>

theorem cart_well_formed:
  assumes "cart_wf (cart st)"
  shows "cart_wf (cart builder_init)
    \<and> cart_wf (cart (addToCart ci st))
    \<and> (key ci \<in> set (map key (cart st)) \<longrightarrow>
         cart (addToCart ci st) =
           map (\<lambda>p. if key p = key ci then p\<lparr>qty := qty p + 1\<rparr> else p) (cart st))
    \<and> (key ci \<notin> set (map key (cart st)) \<longrightarrow>
         cart (addToCart ci st) = with_qty ci 1 # cart st)
    \<and> cart (decrementQty k st) =
         map (\<lambda>p. if key p = k then p\<lparr>qty := max 1 (qty p - 1)\<rparr> else p) (cart st)
    \<and> cart_wf (cart (decrementQty k st))
    \<and> cart (incrementQty k st) =
         map (\<lambda>p. if key p = k then p\<lparr>qty := qty p + 1\<rparr> else p) (cart st)
    \<and> cart_wf (cart (incrementQty k st))
    \<and> cart (removeFromCart k st) = filter (\<lambda>i. key i \<noteq> k) (cart st)
    \<and> k \<notin> set (map key (cart (removeFromCart k st)))
    \<and> cart_wf (cart (removeFromCart k st))
    \<and> cart (addAllCartToRoom src st) = []
    \<and> cart_wf (cart (addAllCartToRoom src st))
    \<and> cart (resetAll st) = []
    \<and> cart_wf (cart (resetAll st))"
proof -
  have init: "cart_wf (cart builder_init)"
    by (simp add: builder_init_def cart_wf_def)
  have dec_eq: "cart (decrementQty k st) =
         map (\<lambda>p. if key p = k then p\<lparr>qty := max 1 (qty p - 1)\<rparr> else p) (cart st)"
    by (simp add: decrementQty_def)
  have dec: "cart_wf (cart (decrementQty k st))"
    using assms by (simp add: decrementQty_def cart_wf_update_qty)
  have inc_eq: "cart (incrementQty k st) =
         map (\<lambda>p. if key p = k then p\<lparr>qty := qty p + 1\<rparr> else p) (cart st)"
    by (simp add: incrementQty_def)
  have inc: "cart_wf (cart (incrementQty k st))"
    using assms by (simp add: incrementQty_def cart_wf_update_qty)
  have rem_eq: "cart (removeFromCart k st) = filter (\<lambda>i. key i \<noteq> k) (cart st)"
    by (simp add: removeFromCart_def)
  have rem_gone: "k \<notin> set (map key (cart (removeFromCart k st)))"
    by (auto simp: removeFromCart_def)
  have rem: "cart_wf (cart (removeFromCart k st))"
    using assms by (simp add: removeFromCart_def cart_wf_filter)
  have all_empty: "cart (addAllCartToRoom src st) = []"
    by (simp add: addAllCartToRoom_def)
  have all_wf: "cart_wf (cart (addAllCartToRoom src st))"
    by (simp add: all_empty cart_wf_def)
  have reset_eq: "cart (resetAll st) = []"
    by (simp add: resetAll_def)
  have reset: "cart_wf (cart (resetAll st))"
    by (simp add: resetAll_def cart_wf_def)
  have merge: "key ci \<in> set (map key (cart st)) \<longrightarrow>
         cart (addToCart ci st) =
           map (\<lambda>p. if key p = key ci then p\<lparr>qty := qty p + 1\<rparr> else p) (cart st)"
    using addToCart_merges [of ci st] by blast
  have fresh: "key ci \<notin> set (map key (cart st)) \<longrightarrow>
         cart (addToCart ci st) = with_qty ci 1 # cart st"
    using addToCart_new [of ci st] by blast
  note add = cart_wf_addToCart [OF assms, of ci]
  show ?thesis
    by (intro conjI init add merge fresh dec_eq dec inc_eq inc rem_eq rem_gone rem all_empty
        all_wf reset_eq reset)
qed

theorem cart_well_formed_witness:
  "cart_wf (cart (addToCart (hd CATALOG) builder_init))
   \<and> cart_wf (cart (addToCart (hd CATALOG) (addToCart (hd CATALOG) builder_init)))
   \<and> map qty (cart (addToCart (hd CATALOG) (addToCart (hd CATALOG) builder_init))) = [2]
   \<and> map qty (cart (decrementQty ''sofa'' (addToCart (hd CATALOG) builder_init))) = [1]
   \<and> map qty (cart (incrementQty ''sofa'' (addToCart (hd CATALOG) builder_init))) = [2]
   \<and> cart (removeFromCart ''sofa'' (addToCart (hd CATALOG) builder_init)) = []
   \<and> map key (cart (addToCart (CATALOG ! 1) (addToCart (hd CATALOG) builder_init)))
       = [''armchair'', ''sofa'']"
proof -
  have h: "cart_wf (cart (addToCart (hd CATALOG) builder_init))"
    by (simp add: cart_wf_def addToCart_def builder_init_def CATALOG_def with_qty_def)
  from cart_well_formed [OF h, of "hd CATALOG"] h show ?thesis
    by (simp add: addToCart_def decrementQty_def incrementQty_def removeFromCart_def
        builder_init_def CATALOG_def with_qty_def)
qed

text \<open>
  Claim C6. When reading the stored value throws, or parsing it throws, the load
  effect returns the state it was given. When serialising or writing throws in
  \<open>savePreviewToLocal\<close>, the error is appended to the console and the component state
  (preview items, cart, room type, burst) is the one it was given; the store is untouched.
\<close>

theorem errors_swallowed_state_unchanged:
  "(getItem br (storage_key (roomType st)) = Inl e \<longrightarrow> load_effect parse br st = st)
   \<and> (getItem br (storage_key (roomType st)) = Inr (Some raw) \<and> parse raw = Inl e \<longrightarrow>
        load_effect parse br st = st)
   \<and> (stringify (previewItems st) = Inl e \<longrightarrow>
        savePreviewToLocal stringify (br, st)
          = (br\<lparr>console := console br @ [(''persist failed'', e)]\<rparr>, st))
   \<and> (stringify (previewItems st) = Inr text
        \<and> setItem br (storage_key (roomType st)) text = Inl e \<longrightarrow>
        savePreviewToLocal stringify (br, st)
          = (br\<lparr>console := console br @ [(''persist failed'', e)]\<rparr>, st))"
  by (simp add: load_effect_def savePreviewToLocal_def)

theorem errors_swallowed_state_unchanged_witness:
  "load_effect (\<lambda>t. Inl SyntaxError)
     \<lparr>storage = Map.empty, access_denied = True, quota = 0, console = []\<rparr> builder_init
     = builder_init
   \<and> load_effect (\<lambda>t. Inl SyntaxError)
     \<lparr>storage = [''rdh_quick_Living Room'' \<mapsto> ''{''], access_denied = False, quota = 0,
      console = []\<rparr> builder_init
     = builder_init
   \<and> savePreviewToLocal (\<lambda>items. Inr ''[]'')
       (\<lparr>storage = Map.empty, access_denied = False, quota = 0, console = []\<rparr>, builder_init)
     = (\<lparr>storage = Map.empty, access_denied = False, quota = 0,
         console = [(''persist failed'', QuotaExceededError)]\<rparr>, builder_init)"
  using errors_swallowed_state_unchanged
    [of "\<lparr>storage = Map.empty, access_denied = True, quota = 0, console = []\<rparr>"
        builder_init SecurityError "\<lambda>t. Inl SyntaxError"]
    errors_swallowed_state_unchanged
    [of "\<lparr>storage = [''rdh_quick_Living Room'' \<mapsto> ''{''], access_denied = False, quota = 0,
          console = []\<rparr>"
        builder_init SyntaxError "\<lambda>t. Inl SyntaxError" "''{''"]
    errors_swallowed_state_unchanged
    [of "\<lparr>storage = Map.empty, access_denied = False, quota = 0, console = []\<rparr>"
        builder_init QuotaExceededError _ _ "\<lambda>items. Inr ''[]''" "''[]''"]
  by (simp add: getItem_def setItem_def storage_key_def builder_init_def)

section \<open>Facts about rounding to a double\<close>

lemma pow2_eq: "pow2 k = 2 powi k"
  by (simp add: pow2_def power_int_def inverse_eq_divide power_one_over)

lemma pow2_pos: "0 < pow2 k"
  by (simp add: pow2_eq)

lemma pow2_add: "pow2 (a + b) = pow2 a * pow2 b"
  by (simp add: pow2_eq power_int_add)

lemma pow2_diff: "pow2 (a - b) = pow2 a / pow2 b"
  by (simp add: pow2_eq power_int_diff)

lemma pow2_less_iff: "pow2 a < pow2 b \<longleftrightarrow> a < b"
proof
  assume "pow2 a < pow2 b"
  show "a < b"
  proof (rule ccontr)
    assume "\<not> a < b"
    then have "b \<le> a" by simp
    then have "pow2 b \<le> pow2 a"
      unfolding pow2_eq by (rule power_int_increasing) simp
    with \<open>pow2 a < pow2 b\<close> show False by simp
  qed
next
  assume "a < b"
  then show "pow2 a < pow2 b"
    unfolding pow2_eq by (rule power_int_strict_increasing) simp
qed

lemma pow2_le_iff: "pow2 a \<le> pow2 b \<longleftrightarrow> a \<le> b"
  using pow2_less_iff [of b a] by (auto simp: not_less [symmetric])

lemma pow2_nat: "pow2 (int n) = 2 ^ n"
  by (simp add: pow2_eq)

lemma pow2_of_nonneg: "0 \<le> k \<Longrightarrow> pow2 k = of_int (2 ^ nat k)"
  by (simp add: pow2_def)

lemma ilog2_bounds:
  assumes "0 < q"
  shows "pow2 (ilog2 q) \<le> q \<and> q < pow2 (ilog2 q + 1)"
proof (cases "1 \<le> q")
  case True
  define n where "n = \<lfloor>q\<rfloor>"
  have n1: "1 \<le> n" using True by (simp add: n_def le_floor_iff)
  then have npos: "0 < n" by simp
  from bitlen_bounds [OF npos]
  have lo: "2 ^ nat (bitlen n - 1) \<le> n" and hi: "n < 2 ^ nat (bitlen n)" by simp_all
  have b1: "1 \<le> bitlen n" using npos by (simp add: bitlen_alt_def)
  have il: "ilog2 q = bitlen n - 1" using True by (simp add: ilog2_def n_def)
  have "pow2 (bitlen n - 1) = of_int (2 ^ nat (bitlen n - 1))"
    using b1 by (simp add: pow2_of_nonneg)
  also have "\<dots> \<le> of_int n" using lo by (simp only: of_int_le_iff)
  also have "\<dots> \<le> q" by (simp add: n_def)
  finally have A: "pow2 (ilog2 q) \<le> q" by (simp add: il)
  have "q < of_int (n + 1)" unfolding n_def using floor_correct [of q] by simp
  also have "\<dots> \<le> of_int (2 ^ nat (bitlen n))" using hi by (simp only: of_int_le_iff)
  also have "\<dots> = pow2 (bitlen n)" using b1 by (simp add: pow2_of_nonneg)
  finally have B: "q < pow2 (ilog2 q + 1)" by (simp add: il)
  from A B show ?thesis ..
next
  case False
  then have q1: "q < 1" by simp
  define x where "x = 1 / q"
  have x1: "1 < x" using assms q1 by (simp add: x_def)
  define m where "m = \<lceil>x\<rceil> - 1"
  have mpos: "0 < m" using x1 by (simp add: m_def less_ceiling_iff)
  from bitlen_bounds [OF mpos]
  have lo: "2 ^ nat (bitlen m - 1) \<le> m" and hi: "m < 2 ^ nat (bitlen m)" by simp_all
  have b1: "1 \<le> bitlen m" using mpos by (simp add: bitlen_alt_def)
  have il: "ilog2 q = - bitlen m" using False by (simp add: ilog2_def m_def x_def)
  have "x \<le> of_int (m + 1)" by (simp add: m_def)
  also have "\<dots> \<le> of_int (2 ^ nat (bitlen m))" using hi by (simp only: of_int_le_iff)
  also have "\<dots> = pow2 (bitlen m)" using b1 by (simp add: pow2_of_nonneg)
  finally have "1 / q \<le> pow2 (bitlen m)" by (simp add: x_def)
  then have "1 \<le> pow2 (bitlen m) * q" using assms by (simp add: field_simps)
  then have A: "pow2 (ilog2 q) \<le> q"
    using pow2_pos [of "bitlen m"] by (simp add: il pow2_eq power_int_minus field_simps)
  have "pow2 (bitlen m - 1) = of_int (2 ^ nat (bitlen m - 1))"
    using b1 by (simp add: pow2_of_nonneg)
  also have "\<dots> \<le> of_int m" using lo by (simp only: of_int_le_iff)
  also have "\<dots> < x" by (simp add: m_def) linarith
  finally have "pow2 (bitlen m - 1) < 1 / q" by (simp add: x_def)
  then have "pow2 (bitlen m - 1) * q < 1" using assms by (simp add: field_simps)
  then have "q < 1 / pow2 (bitlen m - 1)"
    using pow2_pos [of "bitlen m - 1"] by (simp add: field_simps)
  also have "\<dots> = pow2 (- bitlen m + 1)"
    by (simp add: pow2_eq power_int_minus [symmetric] inverse_eq_divide [symmetric])
  finally have B: "q < pow2 (ilog2 q + 1)" by (simp add: il)
  from A B show ?thesis ..
qed

lemma ilog2_unique:
  assumes "0 < q" "pow2 k \<le> q" "q < pow2 (k + 1)"
  shows "ilog2 q = k"
proof -
  from ilog2_bounds [OF assms(1)]
  have lo: "pow2 (ilog2 q) \<le> q" and hi: "q < pow2 (ilog2 q + 1)" by simp_all
  from lo assms(3) have "pow2 (ilog2 q) < pow2 (k + 1)" by simp
  then have "ilog2 q < k + 1" by (simp add: pow2_less_iff)
  moreover from assms(2) hi have "pow2 k < pow2 (ilog2 q + 1)" by simp
  then have "k < ilog2 q + 1" by (simp add: pow2_less_iff)
  ultimately show ?thesis by simp
qed

lemma ilog2_less: "0 < q \<Longrightarrow> q < pow2 k \<Longrightarrow> ilog2 q < k"
  using ilog2_bounds [of q] pow2_less_iff [of "ilog2 q" k] by simp

lemma ilog2_ge: "pow2 k \<le> q \<Longrightarrow> k \<le> ilog2 q"
proof -
  assume a: "pow2 k \<le> q"
  with pow2_pos [of k] have "0 < q" by simp
  from ilog2_bounds [OF this] a have "pow2 k < pow2 (ilog2 q + 1)" by simp
  then show ?thesis by (simp add: pow2_less_iff)
qed

lemma rte_of_int: "rte (of_int n) = n"
  by (simp add: rte_def)

lemma rte_error: "\<bar>of_int (rte q) - q\<bar> \<le> 1 / 2"
  using floor_correct [of q] unfolding rte_def Let_def
  by (auto simp: abs_le_iff)

lemma rte_ge: "of_int k \<le> q \<Longrightarrow> k \<le> rte q"
  unfolding rte_def Let_def by (auto simp: le_floor_iff) (linarith+)?

lemma rte_le_half:
  assumes "q < of_int k + 1 / 2"
  shows "rte q \<le> k"
proof (cases "\<lfloor>q\<rfloor> < k")
  case True
  then show ?thesis unfolding rte_def Let_def by auto
next
  case False
  then have "of_int k \<le> q" by (simp add: not_less le_floor_iff)
  moreover have "\<lfloor>q\<rfloor> \<le> k" using assms by (simp add: floor_le_iff)
  ultimately have "\<lfloor>q\<rfloor> = k" using False by simp
  with assms show ?thesis unfolding rte_def Let_def by auto
qed

lemma rte_le: "q \<le> of_int k \<Longrightarrow> rte q \<le> k"
  by (rule rte_le_half) simp


lemma ilog2_zero: "ilog2 0 = 0"
  by (simp add: ilog2_def bitlen_alt_def)

lemma pow2_numeral: "pow2 (numeral w) = 2 ^ numeral w"
  by (simp add: pow2_def)

lemma pow2_shift: "pow2 (j + k) = 2 ^ nat j * pow2 k" if "0 \<le> j"
  using that pow2_add [of j k] by (simp add: pow2_def)

lemma pow2_half: "pow2 (k - 1) = (1 / 2) * pow2 k"
  using pow2_add [of "- 1" k] by (simp add: pow2_def)

lemma fl_neg: "fl (- q) = fneg (fl q)"
  by (simp add: fl_def Let_def)

lemma fl_pos:
  assumes "0 < q"
  shows "fl q = (if 1024 \<le> ilog2 (of_int (rte (q / pow2 (max (ilog2 q) (- 1022) - 52)))
                              * pow2 (max (ilog2 q) (- 1022) - 52))
                 then PInf
                 else Fin (of_int (rte (q / pow2 (max (ilog2 q) (- 1022) - 52)))
                              * pow2 (max (ilog2 q) (- 1022) - 52)))"
  using assms by (simp add: fl_def Let_def)

lemma fl_upper:
  assumes q: "0 < q"
    and k: "- 1022 \<le> k" "k \<le> 1023"
    and N: "2 ^ 52 \<le> N" "N < 2 ^ 53"
    and bound: "q < (of_int N + 1 / 2) * pow2 (k - 52)"
  shows "\<exists>r. fl q = Fin r \<and> 0 \<le> r \<and> r \<le> of_int N * pow2 (k - 52)
              \<and> \<bar>r - q\<bar> \<le> pow2 (k - 53)"
proof -
  define e where "e = max (ilog2 q) (- 1022)"
  define u where "u = pow2 (e - 52)"
  define n where "n = rte (q / u)"
  define R where "R = of_int n * u"
  have upos: "0 < u" by (simp add: u_def pow2_pos)
  have ukpos: "0 < pow2 (k - 52)" by (rule pow2_pos)
  have p53: "pow2 (k + 1) = 2 ^ 53 * pow2 (k - 52)"
    using pow2_shift [of 53 "k - 52"] by (simp add: algebra_simps)
  have p52: "pow2 k = 2 ^ 52 * pow2 (k - 52)"
    using pow2_shift [of 52 "k - 52"] by simp
  have "of_int N + 1 / 2 < (2 ^ 53 :: rat)"
  proof -
    from N(2) have "N + 1 \<le> 2 ^ 53" by simp
    then have "(of_int (N + 1) :: rat) \<le> of_int (2 ^ 53)" by (simp only: of_int_le_iff)
    then show ?thesis by simp
  qed
  then have "(of_int N + 1 / 2) * pow2 (k - 52) < 2 ^ 53 * pow2 (k - 52)"
    using ukpos by (simp only: mult_strict_right_mono)
  with bound have qk: "q < pow2 (k + 1)" by (simp add: p53)
  then have "ilog2 q < k + 1" by (rule ilog2_less [OF q])
  with k(1) have ek: "e \<le> k" by (simp add: e_def)
  have n0: "0 \<le> n"
    unfolding n_def by (rule rte_ge) (use q upos in simp)
  then have R0: "0 \<le> R" using upos by (simp add: R_def)
  have Rle: "R \<le> of_int N * pow2 (k - 52)"
  proof (cases "e = k")
    case True
    then have "u = pow2 (k - 52)" by (simp add: u_def)
    with bound upos have "q / u < of_int N + 1 / 2" by (simp add: field_simps)
    then have "n \<le> N" unfolding n_def by (rule rte_le_half)
    then have "(of_int n :: rat) \<le> of_int N" by (simp only: of_int_le_iff)
    then show ?thesis using upos \<open>u = pow2 (k - 52)\<close> by (simp add: R_def mult_right_mono)
  next
    case False
    with ek have e1: "e + 1 \<le> k" by simp
    have "q < pow2 (ilog2 q + 1)" using ilog2_bounds [OF q] by simp
    also have "\<dots> \<le> pow2 (e + 1)" by (simp add: pow2_le_iff e_def)
    also have "\<dots> = 2 ^ 53 * u"
      using pow2_shift [of 53 "e - 52"] by (simp add: u_def algebra_simps)
    finally have "q / u < 2 ^ 53" using upos by (simp add: field_simps)
    then have "q / u \<le> of_int (2 ^ 53)" by simp
    then have "n \<le> 2 ^ 53" unfolding n_def by (rule rte_le)
    then have "(of_int n :: rat) \<le> of_int (2 ^ 53)" by (simp only: of_int_le_iff)
    then have "R \<le> 2 ^ 53 * u" using upos by (simp add: R_def mult_right_mono)
    also have "\<dots> = pow2 (e + 1)"
      using pow2_shift [of 53 "e - 52"] by (simp add: u_def algebra_simps)
    also have "\<dots> \<le> pow2 k" using e1 by (simp add: pow2_le_iff)
    also have "\<dots> = 2 ^ 52 * pow2 (k - 52)" by (rule p52)
    also have "\<dots> \<le> of_int N * pow2 (k - 52)"
    proof -
      from N(1) have "(of_int (2 ^ 52) :: rat) \<le> of_int N" by (simp only: of_int_le_iff)
      then show ?thesis using ukpos by (simp add: mult_right_mono)
    qed
    finally show ?thesis .
  qed
  have "of_int N * pow2 (k - 52) < 2 ^ 53 * pow2 (k - 52)"
  proof -
    from N(2) have "(of_int N :: rat) < of_int (2 ^ 53)" by (simp only: of_int_less_iff)
    then show ?thesis using ukpos by (simp add: mult_strict_right_mono)
  qed
  with Rle have "R < pow2 (k + 1)" by (simp add: p53)
  also have "\<dots> \<le> pow2 1024" using k(2) by (simp add: pow2_le_iff)
  finally have Rlt: "R < pow2 1024" .
  have no_ovf: "ilog2 R < 1024"
  proof (cases "R = 0")
    case True
    then show ?thesis by (simp add: ilog2_zero)
  next
    case False
    with R0 have "0 < R" by simp
    then show ?thesis using Rlt by (rule ilog2_less)
  qed
  have err: "\<bar>R - q\<bar> \<le> pow2 (k - 53)"
  proof -
    have "R - q = (of_int n - q / u) * u" using upos by (simp add: R_def field_simps)
    then have "\<bar>R - q\<bar> = \<bar>of_int n - q / u\<bar> * u" using upos by (simp add: abs_mult)
    also have "\<dots> \<le> (1 / 2) * u"
      using rte_error [of "q / u"] upos unfolding n_def by (intro mult_right_mono) simp_all
    also have "\<dots> = pow2 (e - 53)"
      using pow2_half [of "e - 52"] by (simp add: u_def)
    also have "\<dots> \<le> pow2 (k - 53)" using ek by (simp add: pow2_le_iff)
    finally show ?thesis .
  qed
  have "fl q = Fin R"
    using no_ovf by (simp add: fl_pos [OF q] R_def n_def u_def e_def)
  with R0 Rle err show ?thesis by blast
qed


lemma fl_int:
  assumes "0 < n" "n < 2 ^ 53"
  shows "fl (of_int n) = Fin (of_int n)"
proof -
  define q :: rat where "q = of_int n"
  have q: "0 < q" using assms(1) by (simp add: q_def)
  have "pow2 0 \<le> q" using assms(1) by (simp add: pow2_def q_def)
  then have e_lo: "0 \<le> ilog2 q" by (rule ilog2_ge)
  have "(of_int n :: rat) < of_int (2 ^ 53)" using assms(2) by (simp only: of_int_less_iff)
  then have "q < pow2 53" by (simp add: q_def pow2_def)
  then have e_hi: "ilog2 q < 53" by (rule ilog2_less [OF q])
  define j where "j = 52 - ilog2 q"
  have j0: "0 \<le> j" using e_hi by (simp add: j_def)
  have "pow2 (ilog2 q - 52) * pow2 j = pow2 0"
    unfolding pow2_add [symmetric] by (simp add: j_def)
  then have u: "pow2 (ilog2 q - 52) * pow2 j = 1" by (simp add: pow2_def)
  have pj: "pow2 j = of_int (2 ^ nat j)" using j0 by (rule pow2_of_nonneg)
  have "q / pow2 (ilog2 q - 52) = q * pow2 j"
    using u pow2_pos [of "ilog2 q - 52"] by (simp add: field_simps)
  also have "\<dots> = of_int (n * 2 ^ nat j)" by (simp add: q_def pj)
  finally have quot: "q / pow2 (ilog2 q - 52) = of_int (n * 2 ^ nat j)" .
  have R: "of_int (rte (q / pow2 (ilog2 q - 52))) * pow2 (ilog2 q - 52) = q"
  proof -
    have "of_int (rte (q / pow2 (ilog2 q - 52))) * pow2 (ilog2 q - 52)
            = (q * pow2 j) * pow2 (ilog2 q - 52)"
      by (simp only: quot rte_of_int) (simp add: q_def pj)
    also have "\<dots> = q * (pow2 (ilog2 q - 52) * pow2 j)" by (simp add: mult_ac)
    finally show ?thesis by (simp add: u)
  qed
  have m: "max (ilog2 q) (- 1022) = ilog2 q" using e_lo by simp
  have "fl q = Fin q"
    using e_hi by (simp add: fl_pos [OF q] m R)
  then show ?thesis by (simp add: q_def)
qed

lemma fl_bounded_pos:
  assumes "0 < q" "q \<le> pow2 k" "- 1022 \<le> k" "k \<le> 1023"
  shows "\<exists>r. fl q = Fin r \<and> 0 \<le> r \<and> r \<le> pow2 k \<and> \<bar>r - q\<bar> \<le> pow2 (k - 53)"
proof -
  have p52: "pow2 k = 2 ^ 52 * pow2 (k - 52)"
    using pow2_shift [of 52 "k - 52"] by simp
  have "q < (of_int (2 ^ 52) + 1 / 2) * pow2 (k - 52)"
    using assms(2) pow2_pos [of "k - 52"] by (simp add: p52 algebra_simps)
  from fl_upper [OF assms(1) assms(3) assms(4) _ _ this]
  obtain r where "fl q = Fin r" "0 \<le> r" "r \<le> of_int (2 ^ 52) * pow2 (k - 52)"
    "\<bar>r - q\<bar> \<le> pow2 (k - 53)" by auto
  then show ?thesis using p52 by auto
qed

lemma fl_bounded:
  assumes "\<bar>q\<bar> \<le> pow2 k" "- 1022 \<le> k" "k \<le> 1023"
  shows "\<exists>r. fl q = Fin r \<and> \<bar>r\<bar> \<le> pow2 k \<and> \<bar>r - q\<bar> \<le> pow2 (k - 53)"
proof -
  consider "q = 0" | "0 < q" | "q < 0" by linarith
  then show ?thesis
  proof cases
    case 1
    then show ?thesis using pow2_pos [of k] pow2_pos [of "k - 53"] by (simp add: fl_def less_imp_le)
  next
    case 2
    with assms have "q \<le> pow2 k" by simp
    from fl_bounded_pos [OF 2 this assms(2,3)] show ?thesis by auto
  next
    case 3
    then have p: "0 < - q" by simp
    with assms have "- q \<le> pow2 k" by simp
    from fl_bounded_pos [OF p this assms(2,3)]
    obtain r where r: "fl (- q) = Fin r" "0 \<le> r" "r \<le> pow2 k" "\<bar>r - (- q)\<bar> \<le> pow2 (k - 53)"
      by auto
    have "fl q = fneg (fl (- q))" using fl_neg [of "- q"] by simp
    then have "fl q = Fin (- r)" by (simp add: r(1))
    moreover have "\<bar>- r\<bar> \<le> pow2 k" using r(2,3) by simp
    moreover have "\<bar>- r - q\<bar> \<le> pow2 (k - 53)"
    proof -
      have "\<bar>- r - q\<bar> = \<bar>r - (- q)\<bar>" by (simp add: abs_minus_commute algebra_simps)
      with r(4) show ?thesis by simp
    qed
    ultimately show ?thesis by blast
  qed
qed

section \<open>Placed items stay inside the preview\<close>

lemma double_below_one:
  assumes "is_double q" "0 \<le> q" "q < 1"
  shows "q \<le> 1 - 1 / 2 ^ 53"
proof (rule ccontr)
  assume "\<not> q \<le> 1 - 1 / 2 ^ 53"
  then have lo: "1 - 1 / 2 ^ 53 < q" by simp
  then have q: "0 < q" by simp
  have "pow2 (- 1) \<le> q" using lo by (simp add: pow2_def)
  moreover have "q < pow2 (- 1 + 1)" using assms(3) by (simp add: pow2_def)
  ultimately have e: "ilog2 q = - 1" by (rule ilog2_unique [OF q])
  define n where "n = rte (q / pow2 (- 53))"
  have u: "pow2 (- 53) = 1 / 2 ^ 53" by (simp add: pow2_def)
  from assms(1) have "fl q = Fin q" by (simp add: is_double_def)
  then have "of_int n * pow2 (- 53) = q"
    by (simp add: fl_pos [OF q] e n_def split: if_splits)
  then have qn: "q * 2 ^ 53 = of_int n" by (simp add: u field_simps)
  from lo have "2 ^ 53 - 1 < q * 2 ^ 53" by (simp add: field_simps)
  then have "(2 ^ 53 - 1 :: rat) < of_int n" by (simp only: qn)
  then have a: "2 ^ 53 - 1 < n" by simp
  from assms(3) have "q * 2 ^ 53 < 2 ^ 53" by simp
  then have "(of_int n :: rat) < 2 ^ 53" by (simp only: qn)
  then have "n < 2 ^ 53" by simp
  with a show False by simp
qed

lemma scaled_draw:
  assumes q: "0 \<le> q" "q \<le> 1 - 1 / 2 ^ 53"
    and c: "c = 70 \<or> c = 80"
    and d: "0 < d" "d < 100"
  shows "\<exists>n. fadd (math_floor (fmul (Fin q) (Fin (of_int c)))) (Fin (of_int d)) = Fin (of_int n)
             \<and> d \<le> n \<and> n \<le> d + c - 1"
proof -
  have ex: "\<exists>r. fl (q * of_int c) = Fin r \<and> 0 \<le> r \<and> r < of_int c"
  proof (cases "q = 0")
    case True
    then show ?thesis using c by (auto simp: fl_def)
  next
    case False
    with q(1) have qpos: "0 < q" by simp
    then have p: "0 < q * of_int c" using c by auto
    define N where "N = c * 2 ^ 46 - 1"
    have N1: "2 ^ 52 \<le> N" using c by (auto simp: N_def)
    have N2: "N < 2 ^ 53" using c by (auto simp: N_def)
    have "q * of_int c \<le> (1 - 1 / 2 ^ 53) * of_int c"
      using q(2) c by (intro mult_right_mono) auto
    also have "\<dots> < (of_int N + 1 / 2) * pow2 (6 - 52)"
      using c by (auto simp: N_def pow2_def)
    finally have b: "q * of_int c < (of_int N + 1 / 2) * pow2 (6 - 52)" .
    from fl_upper [OF p _ _ N1 N2 b]
    obtain r where r: "fl (q * of_int c) = Fin r" "0 \<le> r" "r \<le> of_int N * pow2 (6 - 52)"
      by auto
    have "of_int N * pow2 (6 - 52) < (of_int c :: rat)"
      using c by (auto simp: N_def pow2_def)
    with r show ?thesis by auto
  qed
  then obtain r where r: "fl (q * of_int c) = Fin r" "0 \<le> r" "r < of_int c" by blast
  define f where "f = \<lfloor>r\<rfloor>"
  have f0: "0 \<le> f" using r(2) by (simp add: f_def)
  have f1: "f < c" using r(3) by (simp add: f_def floor_less_iff)
  have pos: "0 < f + d" using f0 d by simp
  have small: "f + d < 2 ^ 53" using f1 d c by auto
  have "fadd (math_floor (fmul (Fin q) (Fin (of_int c)))) (Fin (of_int d))
          = fl (of_int (f + d))"
    by (simp add: r(1) f_def)
  also have "\<dots> = Fin (of_int (f + d))" using pos small by (rule fl_int)
  finally show ?thesis using f0 f1 by (intro exI [of _ "f + d"]) simp
qed

lemma randomPos_inside:
  assumes "unit_draw rx" "unit_draw ry"
  shows "whole_between 10 89 (pos_x (randomPos rx ry)) \<and> whole_between 15 84 (pos_y (randomPos rx ry))"
proof -
  from assms(1) obtain a where a: "rx = Fin a" "0 \<le> a" "a < 1" "is_double a"
    by (auto simp: unit_draw_def split: jsnum.splits)
  from assms(2) obtain b where b: "ry = Fin b" "0 \<le> b" "b < 1" "is_double b"
    by (auto simp: unit_draw_def split: jsnum.splits)
  from scaled_draw [OF a(2) double_below_one [OF a(4) a(2) a(3)], of 80 10]
  obtain n where n: "fadd (math_floor (fmul (Fin a) (Fin 80))) (Fin 10) = Fin (of_int n)"
    "10 \<le> n" "n \<le> 89" by auto
  from scaled_draw [OF b(2) double_below_one [OF b(4) b(2) b(3)], of 70 15]
  obtain m where m: "fadd (math_floor (fmul (Fin b) (Fin 70))) (Fin 15) = Fin (of_int m)"
    "15 \<le> m" "m \<le> 84" by auto
  show ?thesis
    using n m by (simp add: randomPos_def a(1) b(1) whole_between_def)
qed


lemma create_item_inside:
  assumes "unit_draw (rand_x d)" "unit_draw (rand_y d)"
  shows "placed_inside (create_item ci d)"
  using randomPos_inside [OF assms] by (simp add: placed_inside_def create_item_def)

lemma create_copies_inside:
  assumes "\<forall>k. unit_draw (rand_x (src k)) \<and> unit_draw (rand_y (src k))"
  shows "list_all placed_inside (create_copies ci src n m)"
  using assms by (induction m arbitrary: n) (simp_all add: create_item_inside)

lemma create_all_inside:
  assumes "\<forall>k. unit_draw (rand_x (src k)) \<and> unit_draw (rand_y (src k))"
  shows "list_all placed_inside (create_all c src n)"
  using assms by (induction c arbitrary: n) (simp_all add: create_copies_inside)

text \<open>
  Claim C10. Whatever the random source draws (doubles in \<open>[0, 1)\<close>), every item that
  \<open>addAllCartToRoom\<close> creates is placed at whole numbers with \<open>10 \<le> x \<le> 89\<close> and
  \<open>15 \<le> y \<le> 84\<close>, hence strictly inside the 0 to 100 percent area; the created items are
  put in front of the preview items.
\<close>

theorem placed_items_inside_preview:
  assumes "\<forall>k. unit_draw (rand_x (src k)) \<and> unit_draw (rand_y (src k))"
  shows "list_all placed_inside (create_all (cart st) src 0)
    \<and> previewItems (addAllCartToRoom src st)
        = (if cart st = [] then previewItems st
           else create_all (cart st) src 0 @ previewItems st)"
  using create_all_inside [OF assms] by (simp add: addAllCartToRoom_def)

theorem placed_items_inside_preview_witness:
  "list_all placed_inside
     (create_all (cart (addToCart (hd CATALOG) builder_init))
        (\<lambda>k. \<lparr>now = 0, suffix = ''abcd'', rand_x = Fin (1 / 2), rand_y = Fin (3 / 4)\<rparr>) 0)
   \<and> map pos (previewItems
        (addAllCartToRoom
           (\<lambda>k. \<lparr>now = 0, suffix = ''abcd'', rand_x = Fin (1 / 2), rand_y = Fin (3 / 4)\<rparr>)
           (addToCart (hd CATALOG) builder_init)))
     = [\<lparr>pos_x = Fin 50, pos_y = Fin 67\<rparr>]"
proof -
  have d1: "fl (1 / 2) = Fin (1 / 2)" by code_simp
  have d2: "fl (3 / 4) = Fin (3 / 4)" by code_simp
  have h: "\<forall>k. unit_draw (rand_x ((\<lambda>k. \<lparr>now = 0, suffix = ''abcd'', rand_x = Fin (1 / 2),
                                          rand_y = Fin (3 / 4)\<rparr>) k))
             \<and> unit_draw (rand_y ((\<lambda>k. \<lparr>now = 0, suffix = ''abcd'', rand_x = Fin (1 / 2),
                                          rand_y = Fin (3 / 4)\<rparr>) k))"
    by (simp add: unit_draw_def is_double_def d1 d2)
  have p: "randomPos (Fin (1 / 2)) (Fin (3 / 4)) = \<lparr>pos_x = Fin 50, pos_y = Fin 67\<rparr>"
    by code_simp
  from placed_items_inside_preview [OF h, of "addToCart (hd CATALOG) builder_init"]
  show ?thesis
    by (simp add: addAllCartToRoom_def addToCart_def builder_init_def CATALOG_def with_qty_def
        create_item_def p)
qed

section \<open>Saving and loading the preview\<close>

subsection \<open>Strings\<close>







subsection \<open>Numbers\<close>









subsection \<open>Items and lists\<close>















subsection \<open>What the component holds and stores\<close>


















section \<open>Properties of the viewer\<close>

subsection \<open>Render mode\<close>

lemma viewer_step_mode:
  "v_renderMode st \<in> {''furnished'', ''schematic''}
   \<Longrightarrow> v_renderMode (viewer_step st ev) \<in> {''furnished'', ''schematic''}"
  by (cases ev) auto

lemma viewer_foldl_mode:
  "v_renderMode st \<in> {''furnished'', ''schematic''}
   \<Longrightarrow> v_renderMode (foldl viewer_step st evs) \<in> {''furnished'', ''schematic''}"
  by (induction evs arbitrary: st) (simp_all add: viewer_step_mode del: insert_iff)

lemma viewer_run_mode: "v_renderMode (viewer_run evs) \<in> {''furnished'', ''schematic''}"
  unfolding viewer_run_def by (rule viewer_foldl_mode) (simp add: viewer_init_def)

lemma render_room_schematic:
  "is_schematic (contents_of (render_room sn ms renderMode sel mode rm))
     \<longleftrightarrow> renderMode = ''schematic''"
  by (simp add: render_room_def Let_def)

lemma render_room_furnished:
  assumes "renderMode \<noteq> ''schematic''"
  shows "contents_of (render_room sn ms renderMode sel mode rm)
     = FurnishedGroup
         \<lparr>fg_key = r_name rm @ ''-furnished'',
          fg_position =
            \<lparr>vx = fadd (to_number sn (r_x rm))
                    (fdiv (js_or (to_number sn (r_size rm)) (Fin 3)) (Fin 2)),
             vy = Fin 0,
             vz = fadd (to_number sn (r_y rm))
                    (fdiv (js_or (to_number sn (r_size rm)) (Fin 3)) (Fin 2))\<rparr>,
          fg_interior = RoomInterior sn ms renderMode rm (sel = Some (r_name rm)),
          fg_label = r_name rm\<rparr>"
  using assms by (simp add: render_room_def Let_def)

lemma render_room_furniture:
  "furniture_of (contents_of (render_room sn ms renderMode sel mode rm))
     = (if renderMode = ''furnished''
        then Some (furniture_for ms (js_or (to_number sn (r_size rm)) (Fin 3))
                     (toLowerCase (r_name rm)))
        else None)"
  by (simp add: render_room_def RoomInterior_def Let_def)

lemma viewer_scene_rooms:
  assumes "viewer_scene sn ms st modelPath sel mode l = RoomsScene nodes"
  shows "nodes = map (render_room sn ms (v_renderMode st) sel mode)
                   (rooms_of (shown_layout modelPath l))"
  using assms
  by (auto simp: viewer_scene_def SceneInner_def split: option.splits if_splits)

text \<open>
  Claim C4. The render mode of the viewer starts at \<^verbatim>\<open>'furnished'\<close>, and the two buttons
  keep it one of \<^verbatim>\<open>'furnished'\<close> and \<^verbatim>\<open>'schematic'\<close>. Without a model path the viewer
  shows the rooms of the layout; whenever it shows rooms, it shows one node for every room
  of the layout shown (the demo layout for a demo path), in order, produced by the render
  loop with the viewer's render mode. For every room that node is the schematic group exactly when
  the render mode is \<^verbatim>\<open>'schematic'\<close>; for every other value the viewer's render mode takes
  it is the furnished group: the interior with its walls, and the furniture chosen by the
  name of the room.
\<close>

theorem render_mode_switching:
  "v_renderMode viewer_init = ''furnished''
   \<and> v_renderMode (viewer_run evs) \<in> {''furnished'', ''schematic''}
   \<and> viewer_scene sn ms (viewer_run evs) None sel mode l
       = RoomsScene (map (render_room sn ms (v_renderMode (viewer_run evs)) sel mode) (rooms_of l))
   \<and> (viewer_scene sn ms (viewer_run evs) modelPath sel mode l = RoomsScene nodes \<longrightarrow>
        nodes = map (render_room sn ms (v_renderMode (viewer_run evs)) sel mode)
                  (rooms_of (shown_layout modelPath l)))
   \<and> (is_schematic (contents_of (render_room sn ms (v_renderMode (viewer_run evs)) sel mode rm))
        \<longleftrightarrow> v_renderMode (viewer_run evs) = ''schematic'')
   \<and> (v_renderMode (viewer_run evs) \<noteq> ''schematic'' \<longrightarrow>
        contents_of (render_room sn ms (v_renderMode (viewer_run evs)) sel mode rm)
          = FurnishedGroup
              \<lparr>fg_key = r_name rm @ ''-furnished'',
               fg_position =
                 \<lparr>vx = fadd (to_number sn (r_x rm))
                         (fdiv (js_or (to_number sn (r_size rm)) (Fin 3)) (Fin 2)),
                  vy = Fin 0,
                  vz = fadd (to_number sn (r_y rm))
                         (fdiv (js_or (to_number sn (r_size rm)) (Fin 3)) (Fin 2))\<rparr>,
               fg_interior = RoomInterior sn ms ''furnished'' rm (sel = Some (r_name rm)),
               fg_label = r_name rm\<rparr>
        \<and> i_furniture (RoomInterior sn ms ''furnished'' rm (sel = Some (r_name rm)))
            = Some (furniture_for ms (js_or (to_number sn (r_size rm)) (Fin 3))
                      (toLowerCase (r_name rm))))"
proof -
  have init: "v_renderMode viewer_init = ''furnished''" by (simp add: viewer_init_def)
  note reach = viewer_run_mode [of evs]
  have rooms: "viewer_scene sn ms (viewer_run evs) modelPath sel mode l = RoomsScene nodes \<longrightarrow>
        nodes = map (render_room sn ms (v_renderMode (viewer_run evs)) sel mode)
                  (rooms_of (shown_layout modelPath l))"
    using viewer_scene_rooms by blast
  have plain: "viewer_scene sn ms (viewer_run evs) None sel mode l
       = RoomsScene (map (render_room sn ms (v_renderMode (viewer_run evs)) sel mode) (rooms_of l))"
    by (simp add: viewer_scene_def SceneInner_def shown_layout_def)
  note schem = render_room_schematic [of sn ms "v_renderMode (viewer_run evs)" sel mode rm]
  have furn: "v_renderMode (viewer_run evs) \<noteq> ''schematic'' \<longrightarrow>
        contents_of (render_room sn ms (v_renderMode (viewer_run evs)) sel mode rm)
          = FurnishedGroup
              \<lparr>fg_key = r_name rm @ ''-furnished'',
               fg_position =
                 \<lparr>vx = fadd (to_number sn (r_x rm))
                         (fdiv (js_or (to_number sn (r_size rm)) (Fin 3)) (Fin 2)),
                  vy = Fin 0,
                  vz = fadd (to_number sn (r_y rm))
                         (fdiv (js_or (to_number sn (r_size rm)) (Fin 3)) (Fin 2))\<rparr>,
               fg_interior = RoomInterior sn ms ''furnished'' rm (sel = Some (r_name rm)),
               fg_label = r_name rm\<rparr>
        \<and> i_furniture (RoomInterior sn ms ''furnished'' rm (sel = Some (r_name rm)))
            = Some (furniture_for ms (js_or (to_number sn (r_size rm)) (Fin 3))
                      (toLowerCase (r_name rm)))"
  proof
    assume ns: "v_renderMode (viewer_run evs) \<noteq> ''schematic''"
    with reach have f: "v_renderMode (viewer_run evs) = ''furnished''" by auto
    have "''furnished'' \<noteq> ''schematic''" by simp
    from render_room_furnished [OF this, of sn ms sel mode rm]
    show "contents_of (render_room sn ms (v_renderMode (viewer_run evs)) sel mode rm)
          = FurnishedGroup
              \<lparr>fg_key = r_name rm @ ''-furnished'',
               fg_position =
                 \<lparr>vx = fadd (to_number sn (r_x rm))
                         (fdiv (js_or (to_number sn (r_size rm)) (Fin 3)) (Fin 2)),
                  vy = Fin 0,
                  vz = fadd (to_number sn (r_y rm))
                         (fdiv (js_or (to_number sn (r_size rm)) (Fin 3)) (Fin 2))\<rparr>,
               fg_interior = RoomInterior sn ms ''furnished'' rm (sel = Some (r_name rm)),
               fg_label = r_name rm\<rparr>
        \<and> i_furniture (RoomInterior sn ms ''furnished'' rm (sel = Some (r_name rm)))
            = Some (furniture_for ms (js_or (to_number sn (r_size rm)) (Fin 3))
                      (toLowerCase (r_name rm)))"
      by (simp add: f RoomInterior_def Let_def)
  qed
  from init reach plain rooms schem furn show ?thesis by blast
qed

theorem render_mode_switching_witness:
  "viewer_scene (\<lambda>s. NaN)
       \<lparr>sofaGltf = None, tvGltf = None, toiletGltf = None, bedGltf = None\<rparr>
       (viewer_run [ClickSchematic, ClickFurnished]) None None ''translate''
       \<lparr>rooms = Some [\<lparr>r_name = ''Kitchen'', r_size = JNum (Fin 4), r_x = JNum (Fin 0),
                        r_y = JNum (Fin 0), r_rotationY = None, r_scale = None\<rparr>]\<rparr>
     = RoomsScene
         [render_room (\<lambda>s. NaN)
            \<lparr>sofaGltf = None, tvGltf = None, toiletGltf = None, bedGltf = None\<rparr>
            ''furnished'' None ''translate''
            \<lparr>r_name = ''Kitchen'', r_size = JNum (Fin 4), r_x = JNum (Fin 0),
             r_y = JNum (Fin 0), r_rotationY = None, r_scale = None\<rparr>]
   \<and> furniture_of (contents_of (render_room (\<lambda>s. NaN)
        \<lparr>sofaGltf = None, tvGltf = None, toiletGltf = None, bedGltf = None\<rparr>
        (v_renderMode (viewer_run [ClickSchematic, ClickFurnished])) None ''translate''
        \<lparr>r_name = ''Kitchen'', r_size = JNum (Fin 4), r_x = JNum (Fin 0), r_y = JNum (Fin 0),
         r_rotationY = None, r_scale = None\<rparr>))
     = Some Kitchen
   \<and> is_schematic (contents_of (render_room (\<lambda>s. NaN)
        \<lparr>sofaGltf = None, tvGltf = None, toiletGltf = None, bedGltf = None\<rparr>
        (v_renderMode (viewer_run [ClickSchematic])) None ''translate''
        \<lparr>r_name = ''Kitchen'', r_size = JNum (Fin 4), r_x = JNum (Fin 0), r_y = JNum (Fin 0),
         r_rotationY = None, r_scale = None\<rparr>))"
proof -
  have m: "v_renderMode (viewer_run [ClickSchematic, ClickFurnished]) = ''furnished''"
    by (simp add: viewer_run_def viewer_init_def)
  have m2: "v_renderMode (viewer_run [ClickSchematic]) = ''schematic''"
    by (simp add: viewer_run_def viewer_init_def)
  have k: "furniture_for \<lparr>sofaGltf = None, tvGltf = None, toiletGltf = None, bedGltf = None\<rparr>
             (Fin 4) (toLowerCase ''Kitchen'') = Kitchen"
    by (simp add: furniture_for_def test_any_def toLowerCase_def lower_char_def)
  have sc: "viewer_scene (\<lambda>s. NaN)
       \<lparr>sofaGltf = None, tvGltf = None, toiletGltf = None, bedGltf = None\<rparr>
       (viewer_run [ClickSchematic, ClickFurnished]) None None ''translate''
       \<lparr>rooms = Some [\<lparr>r_name = ''Kitchen'', r_size = JNum (Fin 4), r_x = JNum (Fin 0),
                        r_y = JNum (Fin 0), r_rotationY = None, r_scale = None\<rparr>]\<rparr>
     = RoomsScene
         [render_room (\<lambda>s. NaN)
            \<lparr>sofaGltf = None, tvGltf = None, toiletGltf = None, bedGltf = None\<rparr>
            ''furnished'' None ''translate''
            \<lparr>r_name = ''Kitchen'', r_size = JNum (Fin 4), r_x = JNum (Fin 0),
             r_y = JNum (Fin 0), r_rotationY = None, r_scale = None\<rparr>]"
    by (simp add: viewer_scene_def SceneInner_def shown_layout_def rooms_of_def m)
  from render_mode_switching
    [of "[ClickSchematic, ClickFurnished]" "\<lambda>s. NaN"
        "\<lparr>sofaGltf = None, tvGltf = None, toiletGltf = None, bedGltf = None\<rparr>"
        None "''translate''"
        "\<lparr>rooms = Some [\<lparr>r_name = ''Kitchen'', r_size = JNum (Fin 4), r_x = JNum (Fin 0),
                           r_y = JNum (Fin 0), r_rotationY = None, r_scale = None\<rparr>]\<rparr>"
        None _
        "\<lparr>r_name = ''Kitchen'', r_size = JNum (Fin 4), r_x = JNum (Fin 0), r_y = JNum (Fin 0),
          r_rotationY = None, r_scale = None\<rparr>"]
    sc
  show ?thesis
    by (simp add: m m2 k js_or_def render_room_schematic render_room_furniture)
qed

subsection \<open>Models that fail to load, and models kept between renders\<close>

lemma furniture_for_slots:
  "furniture_for (load_models useLoader) sz nm =
     (if test_any [''bath'', ''toilet'', ''wc''] nm then
        Bath (case useLoader ''/models/toilet.glb'' of
                Threw \<Rightarrow> Procedural Toilet
              | Returned g \<Rightarrow> Primitive g (7 / 10))
      else if test_any [''living'', ''lounge'', ''living room'', ''family''] nm then
        Living (case useLoader ''/models/tv.glb'' of
                  Threw \<Rightarrow> Procedural (TV (math_min (fl (14 / 10)) (fmul sz (fl (6 / 10))))
                                         (math_min (fl (8 / 10)) (fmul sz (fl (35 / 100)))))
                | Returned g \<Rightarrow> Primitive g (7 / 10))
      else if test_any [''master suite'', ''master bedroom''] nm then MasterBedroom
      else if test_any [''kitchen''] nm then Kitchen
      else GenericRoom
             (case useLoader ''/models/sofa.glb'' of
                Threw \<Rightarrow> Procedural (Sofa (fmul sz (fl (6 / 10))) (fl (7 / 10)))
              | Returned g \<Rightarrow> Primitive g (1 / 2))
             (case useLoader ''/models/tv.glb'' of
                Threw \<Rightarrow> Procedural (TV (math_min (fl (12 / 10)) (fmul sz (fl (5 / 10))))
                                       (fl (6 / 10)))
              | Returned g \<Rightarrow> Primitive g (1 / 2)))"
  by (simp add: furniture_for_def load_models_def model_or_def split: load_outcome.splits)

lemma use_models_first: "fst (use_models useLoader first_render) = load_models useLoader"
  by (simp add: use_models_def first_render_def useMemo_def load_models_def)

lemma use_models_again:
  "use_models later (snd (use_models useLoader first_render))
     = (load_models useLoader, snd (use_models useLoader first_render))"
  by (simp add: use_models_def first_render_def useMemo_def load_models_def)

text \<open>
  Claim C7, as amended. Results are kept for reuse: the first render of the scene stores
  the outcome of each of the four model loads, and every later render returns the stored
  outcomes whatever the loader would do then. A failed action is replaced by a fallback:
  a loader that throws is caught, the model is \<^verbatim>\<open>null\<close>, and the furniture slot of that
  model (the toilet of a bathroom, the TV of a living room, the sofa and the TV of any
  other furnished room) holds the procedural prefab, each slot on its own; a slot whose
  model loaded holds the clone of that model's scene. The bed model is loaded and never
  rendered.
\<close>

theorem gltf_fallback:
  "fst (use_models useLoader first_render) = load_models useLoader
   \<and> use_models later (snd (use_models useLoader first_render))
       = (load_models useLoader, snd (use_models useLoader first_render))
   \<and> furniture_for (load_models useLoader) sz nm =
     (if test_any [''bath'', ''toilet'', ''wc''] nm then
        Bath (case useLoader ''/models/toilet.glb'' of
                Threw \<Rightarrow> Procedural Toilet
              | Returned g \<Rightarrow> Primitive g (7 / 10))
      else if test_any [''living'', ''lounge'', ''living room'', ''family''] nm then
        Living (case useLoader ''/models/tv.glb'' of
                  Threw \<Rightarrow> Procedural (TV (math_min (fl (14 / 10)) (fmul sz (fl (6 / 10))))
                                         (math_min (fl (8 / 10)) (fmul sz (fl (35 / 100)))))
                | Returned g \<Rightarrow> Primitive g (7 / 10))
      else if test_any [''master suite'', ''master bedroom''] nm then MasterBedroom
      else if test_any [''kitchen''] nm then Kitchen
      else GenericRoom
             (case useLoader ''/models/sofa.glb'' of
                Threw \<Rightarrow> Procedural (Sofa (fmul sz (fl (6 / 10))) (fl (7 / 10)))
              | Returned g \<Rightarrow> Primitive g (1 / 2))
             (case useLoader ''/models/tv.glb'' of
                Threw \<Rightarrow> Procedural (TV (math_min (fl (12 / 10)) (fmul sz (fl (5 / 10))))
                                       (fl (6 / 10)))
              | Returned g \<Rightarrow> Primitive g (1 / 2)))
   \<and> furniture_for (ms\<lparr>bedGltf := b\<rparr>) sz nm = furniture_for ms sz nm"
  using use_models_first [of useLoader] use_models_again [of later useLoader]
    furniture_for_slots [of useLoader sz nm]
  by (simp add: furniture_for_def)

text \<open>
  Claim C7 as stated fails twice. When every loader throws, a furnished room named
  \<open>Study\<close> is still given a sofa and a TV, the procedural ones: a fallback result. And a
  render after the first returns the models the first render stored, here the loaded
  ones although the loader would now throw: a cache of reusable results.
\<close>

theorem gltf_fallback_counterexample:
  "try_load Threw = None
   \<and> furniture_of (contents_of (render_room (\<lambda>s. NaN) (load_models (\<lambda>url. Threw))
        ''furnished'' None ''translate''
        \<lparr>r_name = ''Study'', r_size = JNum (Fin 4), r_x = JNum (Fin 0), r_y = JNum (Fin 0),
         r_rotationY = None, r_scale = None\<rparr>))
     = Some (GenericRoom
               (Procedural (Sofa (fmul (Fin 4) (fl (6 / 10))) (fl (7 / 10))))
               (Procedural (TV (math_min (fl (12 / 10)) (fmul (Fin 4) (fl (5 / 10))))
                               (fl (6 / 10)))))
   \<and> fst (use_models (\<lambda>url. Threw)
            (snd (use_models (\<lambda>url. Returned (Gltf url)) first_render)))
     = \<lparr>sofaGltf = Some (Gltf ''/models/sofa.glb''), tvGltf = Some (Gltf ''/models/tv.glb''),
        toiletGltf = Some (Gltf ''/models/toilet.glb''),
        bedGltf = Some (Gltf ''/models/bed.glb'')\<rparr>"
  by (simp add: render_room_def RoomInterior_def Let_def load_models_def furniture_for_def
      model_or_def test_any_def toLowerCase_def lower_char_def js_or_def
      use_models_def first_render_def useMemo_def)

subsection \<open>The default size\<close>

lemma half_of_three: "fl (3 / 2) = Fin (3 / 2)"
  by code_simp

text \<open>
  Claim C3. When \<^verbatim>\<open>Number(size)\<close> is NaN (the field is absent or does not convert to a
  number) or 0, as it is for \<^verbatim>\<open>undefined\<close>, \<^verbatim>\<open>null\<close>, \<^verbatim>\<open>false\<close>, NaN and 0, every place
  that converts between top-left and centred coordinates uses the size 3: the layout-sync effect and the render loop put the group at
  \<open>(x + 1.5, 0, y + 1.5)\<close>, the transform-end handler subtracts 1.5, and the interior is
  built for the size 3.
\<close>

theorem default_room_size:
  assumes "to_number sn (r_size rm) = NaN \<or> to_number sn (r_size rm) = Fin 0"
  shows "(refs (r_name rm) = Some g \<longrightarrow>
           (\<exists>g'. sync_room sn refs rm (r_name rm) = Some g'
                 \<and> g_position g'
                     = \<lparr>vx = fadd (to_number sn (r_x rm)) (Fin (3 / 2)), vy = Fin 0,
                        vz = fadd (to_number sn (r_y rm)) (Fin (3 / 2))\<rparr>))
    \<and> (nm \<noteq> [] \<and> refs nm = Some grp
        \<and> find (\<lambda>r. r_name r = nm) (rooms_of l) = Some rm \<longrightarrow>
          onMouseUp sn (Some nm) refs l snap True
            = Some (nm,
                \<lparr>t_x = snapTo snap (to_fixed_number 3 (fsub (vx (g_position grp)) (Fin (3 / 2)))),
                 t_y = snapTo snap (to_fixed_number 3 (fsub (vz (g_position grp)) (Fin (3 / 2)))),
                 t_rotationY = to_fixed_number 5 (js_or (vy (g_rotation grp)) (Fin 0)),
                 t_scale = to_fixed_number 5 (js_or (vx (g_scale grp)) (Fin 1))\<rparr>))
    \<and> position_of (contents_of (render_room sn ms renderMode sel mode rm))
        = \<lparr>vx = fadd (to_number sn (r_x rm)) (Fin (3 / 2)), vy = Fin 0,
           vz = fadd (to_number sn (r_y rm)) (Fin (3 / 2))\<rparr>
    \<and> i_size (RoomInterior sn ms renderMode rm b) = Fin 3
    \<and> to_number sn JUndefined = NaN \<and> to_number sn JNull = Fin 0
    \<and> to_number sn (JBool False) = Fin 0 \<and> to_number sn (JNum NaN) = NaN
    \<and> to_number sn (JNum (Fin 0)) = Fin 0"
proof -
  from assms have sz: "js_or (to_number sn (r_size rm)) (Fin 3) = Fin 3"
    by (auto simp: js_or_def)
  have sync: "refs (r_name rm) = Some g \<longrightarrow>
           (\<exists>g'. sync_room sn refs rm (r_name rm) = Some g'
                 \<and> g_position g'
                     = \<lparr>vx = fadd (to_number sn (r_x rm)) (Fin (3 / 2)), vy = Fin 0,
                        vz = fadd (to_number sn (r_y rm)) (Fin (3 / 2))\<rparr>)"
    by (simp add: sync_room_def sz half_of_three Let_def split: option.splits)
  have handler: "nm \<noteq> [] \<and> refs nm = Some grp
        \<and> find (\<lambda>r. r_name r = nm) (rooms_of l) = Some rm \<longrightarrow>
          onMouseUp sn (Some nm) refs l snap True
            = Some (nm,
                \<lparr>t_x = snapTo snap (to_fixed_number 3 (fsub (vx (g_position grp)) (Fin (3 / 2)))),
                 t_y = snapTo snap (to_fixed_number 3 (fsub (vz (g_position grp)) (Fin (3 / 2)))),
                 t_rotationY = to_fixed_number 5 (js_or (vy (g_rotation grp)) (Fin 0)),
                 t_scale = to_fixed_number 5 (js_or (vx (g_scale grp)) (Fin 1))\<rparr>)"
    by (simp add: onMouseUp_def sz half_of_three Let_def)
  have render: "position_of (contents_of (render_room sn ms renderMode sel mode rm))
        = \<lparr>vx = fadd (to_number sn (r_x rm)) (Fin (3 / 2)), vy = Fin 0,
           vz = fadd (to_number sn (r_y rm)) (Fin (3 / 2))\<rparr>"
    by (simp add: render_room_def sz half_of_three Let_def)
  have inter: "i_size (RoomInterior sn ms renderMode rm b) = Fin 3"
    by (simp add: RoomInterior_def sz Let_def)
  have vals: "to_number sn JUndefined = NaN \<and> to_number sn JNull = Fin 0
    \<and> to_number sn (JBool False) = Fin 0 \<and> to_number sn (JNum NaN) = NaN
    \<and> to_number sn (JNum (Fin 0)) = Fin 0"
    by simp
  from sync handler render inter vals show ?thesis by blast
qed

theorem default_room_size_witness:
  "map_option g_position
     (sync_room (\<lambda>s. NaN)
        [''A'' \<mapsto> \<lparr>g_position = \<lparr>vx = Fin 0, vy = Fin 0, vz = Fin 0\<rparr>,
                   g_rotation = \<lparr>vx = Fin 0, vy = Fin 0, vz = Fin 0\<rparr>,
                   g_scale = \<lparr>vx = Fin 1, vy = Fin 1, vz = Fin 1\<rparr>\<rparr>]
        \<lparr>r_name = ''A'', r_size = JUndefined, r_x = JNum (Fin 1), r_y = JNum (Fin 2),
         r_rotationY = None, r_scale = None\<rparr> ''A'')
     = Some \<lparr>vx = Fin (5 / 2), vy = Fin 0, vz = Fin (7 / 2)\<rparr>
   \<and> i_size (RoomInterior (\<lambda>s. NaN)
        \<lparr>sofaGltf = None, tvGltf = None, toiletGltf = None, bedGltf = None\<rparr> ''furnished''
        \<lparr>r_name = ''A'', r_size = JUndefined, r_x = JNum (Fin 1), r_y = JNum (Fin 2),
         r_rotationY = None, r_scale = None\<rparr> False) = Fin 3"
proof -
  have a: "fl (5 / 2) = Fin (5 / 2)" by code_simp
  have b: "fl (7 / 2) = Fin (7 / 2)" by code_simp
  have h: "to_number (\<lambda>s. NaN) (r_size \<lparr>r_name = ''A'', r_size = JUndefined, r_x = JNum (Fin 1),
             r_y = JNum (Fin 2), r_rotationY = None, r_scale = None\<rparr>) = NaN
           \<or> to_number (\<lambda>s. NaN) (r_size \<lparr>r_name = ''A'', r_size = JUndefined, r_x = JNum (Fin 1),
             r_y = JNum (Fin 2), r_rotationY = None, r_scale = None\<rparr>) = Fin 0"
    by simp
  from default_room_size [OF h,
      of "[''A'' \<mapsto> \<lparr>g_position = \<lparr>vx = Fin 0, vy = Fin 0, vz = Fin 0\<rparr>,
                   g_rotation = \<lparr>vx = Fin 0, vy = Fin 0, vz = Fin 0\<rparr>,
                   g_scale = \<lparr>vx = Fin 1, vy = Fin 1, vz = Fin 1\<rparr>\<rparr>]"
         "\<lparr>g_position = \<lparr>vx = Fin 0, vy = Fin 0, vz = Fin 0\<rparr>,
                   g_rotation = \<lparr>vx = Fin 0, vy = Fin 0, vz = Fin 0\<rparr>,
                   g_scale = \<lparr>vx = Fin 1, vy = Fin 1, vz = Fin 1\<rparr>\<rparr>"
         "''A''" _ _ _
         "\<lparr>sofaGltf = None, tvGltf = None, toiletGltf = None, bedGltf = None\<rparr>"
         "''furnished''" _ _ False]
  show ?thesis
    by (auto simp: a b)
qed

text \<open>
  Claim C3 as stated fails for a size that is not a number and yet converts to one that
  is not 0: the size \<^verbatim>\<open>true\<close> is used as 1, so the interior is built for the size 1 and
  the group of a room at \<open>(1, 2)\<close> is put at \<open>(1.5, 0, 2.5)\<close>.
\<close>

theorem default_room_size_counterexample:
  "to_number (\<lambda>s. NaN) (JBool True) = Fin 1
   \<and> i_size (RoomInterior (\<lambda>s. NaN)
        \<lparr>sofaGltf = None, tvGltf = None, toiletGltf = None, bedGltf = None\<rparr> ''furnished''
        \<lparr>r_name = ''A'', r_size = JBool True, r_x = JNum (Fin 1), r_y = JNum (Fin 2),
         r_rotationY = None, r_scale = None\<rparr> False) = Fin 1
   \<and> map_option g_position
       (sync_room (\<lambda>s. NaN)
          [''A'' \<mapsto> \<lparr>g_position = \<lparr>vx = Fin 0, vy = Fin 0, vz = Fin 0\<rparr>,
                     g_rotation = \<lparr>vx = Fin 0, vy = Fin 0, vz = Fin 0\<rparr>,
                     g_scale = \<lparr>vx = Fin 1, vy = Fin 1, vz = Fin 1\<rparr>\<rparr>]
          \<lparr>r_name = ''A'', r_size = JBool True, r_x = JNum (Fin 1), r_y = JNum (Fin 2),
           r_rotationY = None, r_scale = None\<rparr> ''A'')
     = Some \<lparr>vx = Fin (3 / 2), vy = Fin 0, vz = Fin (5 / 2)\<rparr>"
proof -
  have a: "fl (1 / 2) = Fin (1 / 2)" by code_simp
  have b: "fl (3 / 2) = Fin (3 / 2)" by code_simp
  have c: "fl (5 / 2) = Fin (5 / 2)" by code_simp
  show ?thesis
    by (simp add: RoomInterior_def sync_room_def Let_def js_or_def a b c)
qed

subsection \<open>Top-left to centre and back\<close>

lemma fl_zero: "fl 0 = Fin 0"
  by (simp add: fl_def)

lemma fl_int_abs:
  assumes "\<bar>n\<bar> < 2 ^ 53"
  shows "fl (of_int n) = Fin (of_int n)"
proof -
  consider "n = 0" | "0 < n" | "n < 0" by linarith
  then show ?thesis
  proof cases
    case 1
    then show ?thesis by (simp add: fl_zero)
  next
    case 2
    with assms show ?thesis by (intro fl_int) simp_all
  next
    case 3
    with assms have "fl (of_int (- n)) = Fin (of_int (- n))" by (intro fl_int) simp_all
    then have "fneg (fl (of_int n)) = Fin (- of_int n)" using fl_neg [of "of_int n"] by simp
    then show ?thesis by (cases "fl (of_int n)") simp_all
  qed
qed

lemma round3_recover:
  fixes b :: rat
  assumes "\<bar>b - of_int k / 1000\<bar> < 1 / 2000"
  shows "(if b < 0 then - 1 else 1) * of_int \<lfloor>\<bar>b\<bar> * 10 ^ 3 + 1 / 2\<rfloor> / 10 ^ 3 = (of_int k / 1000 :: rat)"
proof -
  have lo: "- (1 / 2) < b * 1000 - of_int k" and hi: "b * 1000 - of_int k < 1 / 2"
    using assms by linarith+
  show ?thesis
  proof (cases "b < 0")
    case True
    then have ab: "\<bar>b\<bar> = - b" by simp
    have "\<lfloor>\<bar>b\<bar> * 10 ^ 3 + 1 / 2\<rfloor> = - k"
    proof (rule floor_unique)
      show "of_int (- k) \<le> \<bar>b\<bar> * 10 ^ 3 + 1 / 2" unfolding ab using hi by simp
      show "\<bar>b\<bar> * 10 ^ 3 + 1 / 2 < of_int (- k) + 1" unfolding ab using lo by simp
    qed
    then show ?thesis using True by simp
  next
    case False
    then have ab: "\<bar>b\<bar> = b" by simp
    have "\<lfloor>\<bar>b\<bar> * 10 ^ 3 + 1 / 2\<rfloor> = k"
    proof (rule floor_unique)
      show "of_int k \<le> \<bar>b\<bar> * 10 ^ 3 + 1 / 2" unfolding ab using lo by simp
      show "\<bar>b\<bar> * 10 ^ 3 + 1 / 2 < of_int k + 1" unfolding ab using hi by simp
    qed
    then show ?thesis using False by simp
  qed
qed

lemma axis_roundtrip:
  assumes d: "\<bar>of_int k / 1000\<bar> \<le> pow2 30" and h: "\<bar>hv\<bar> \<le> pow2 30"
  shows "to_fixed_number 3 (fsub (fadd (fl (of_int k / 1000)) (Fin hv)) (Fin hv))
           = fl (of_int k / 1000)"
proof -
  define dv :: rat where "dv = of_int k / 1000"
  have p30: "pow2 30 = 2 ^ 30" and p31: "pow2 31 = 2 ^ 31" and p32: "pow2 32 = 2 ^ 32"
    by (simp_all add: pow2_def)
  from fl_bounded [of dv 30] d
  obtain xv where xv: "fl dv = Fin xv" "\<bar>xv\<bar> \<le> pow2 30" "\<bar>xv - dv\<bar> \<le> pow2 (30 - 53)"
    by (auto simp: dv_def)
  have "\<bar>xv + hv\<bar> \<le> pow2 31" using xv(2) h by (simp add: p30 p31)
  from fl_bounded [OF this]
  obtain cv where cv: "fl (xv + hv) = Fin cv" "\<bar>cv\<bar> \<le> pow2 31"
    "\<bar>cv - (xv + hv)\<bar> \<le> pow2 (31 - 53)" by auto
  have "\<bar>cv - hv\<bar> \<le> pow2 32" using cv(2) h by (simp add: p30 p31 p32)
  from fl_bounded [OF this]
  obtain bv where bv: "fl (cv - hv) = Fin bv" "\<bar>bv\<bar> \<le> pow2 32"
    "\<bar>bv - (cv - hv)\<bar> \<le> pow2 (32 - 53)" by auto
  have e1: "pow2 (30 - 53) = 1 / 2 ^ 23" and e2: "pow2 (31 - 53) = 1 / 2 ^ 22"
    and e3: "pow2 (32 - 53) = 1 / 2 ^ 21" by (simp_all add: pow2_def)
  have near: "\<bar>bv - dv\<bar> < 1 / 2000"
  proof -
    have "\<bar>bv - dv\<bar> \<le> \<bar>bv - (cv - hv)\<bar> + \<bar>cv - (xv + hv)\<bar> + \<bar>xv - dv\<bar>"
      by linarith
    also have "\<dots> \<le> 1 / 2 ^ 21 + 1 / 2 ^ 22 + 1 / 2 ^ 23"
      using xv(3) cv(3) bv(3) unfolding e1 e2 e3 by (intro add_mono)
    also have "\<dots> < 1 / 2000" by simp
    finally show ?thesis .
  qed
  have small: "\<not> 1000000000000000000000 \<le> \<bar>bv\<bar>" using bv(2) by (simp add: p32)
  have undo: "fsub (fadd (fl dv) (Fin hv)) (Fin hv) = Fin bv"
    by (simp add: fsub_def xv(1) cv(1) bv(1))
  have "to_fixed_number 3 (Fin bv) = fl dv"
    using small round3_recover [of bv k] near
    by (simp add: dv_def Let_def)
  then have "to_fixed_number 3 (fsub (fadd (fl dv) (Fin hv)) (Fin hv)) = fl dv"
    by (simp only: undo)
  then show ?thesis by (simp only: dv_def)
qed

lemma half_size_bounded:
  assumes "\<bar>s\<bar> \<le> 10 ^ 9"
  shows "\<exists>hv. fdiv (js_or (Fin s) (Fin 3)) (Fin 2) = Fin hv \<and> \<bar>hv\<bar> \<le> pow2 30"
proof -
  define t where "t = (if s \<noteq> 0 then s else 3)"
  have t: "js_or (Fin s) (Fin 3) = Fin t" by (simp add: js_or_def t_def)
  have "\<bar>t / 2\<bar> \<le> pow2 30" using assms by (simp add: t_def pow2_def)
  from fl_bounded [OF this] obtain hv where "fl (t / 2) = Fin hv" "\<bar>hv\<bar> \<le> pow2 30" by auto
  then show ?thesis by (simp add: t)
qed

text \<open>
  Claim C1, as amended. For a room whose group is mounted, with a numeric size of
  magnitude at most \<open>10^9\<close> and top-left coordinates that are the doubles of decimals
  with at most 3 places and magnitude at most \<open>10^9\<close>: the layout-sync effect followed by
  the transform-end handler with \<open>snap = 0\<close> reports the original \<open>x\<close> and \<open>y\<close>.
\<close>

theorem coordinate_roundtrip:
  assumes nm: "r_name rm \<noteq> []"
    and g: "refs (r_name rm) = Some g"
    and found: "find (\<lambda>r. r_name r = r_name rm) (rooms_of l) = Some rm"
    and sz: "r_size rm = JNum (Fin s)" "\<bar>s\<bar> \<le> 10 ^ 9"
    and x: "r_x rm = JNum (fl (of_int kx / 1000))" "\<bar>kx\<bar> \<le> 10 ^ 12"
    and y: "r_y rm = JNum (fl (of_int ky / 1000))" "\<bar>ky\<bar> \<le> 10 ^ 12"
  shows "\<exists>res. onMouseUp sn (Some (r_name rm)) (sync_room sn refs rm) l (Fin 0) True
                  = Some (r_name rm, res)
               \<and> JNum (t_x res) = r_x rm \<and> JNum (t_y res) = r_y rm"
proof -
  from half_size_bounded [OF sz(2)]
  obtain hv where hv: "fdiv (js_or (Fin s) (Fin 3)) (Fin 2) = Fin hv" "\<bar>hv\<bar> \<le> pow2 30"
    by blast
  have "\<bar>(of_int kx :: rat)\<bar> \<le> of_int (10 ^ 12)"
    using x(2) by (simp only: of_int_abs [symmetric] of_int_le_iff)
  then have dx: "\<bar>of_int kx / 1000 :: rat\<bar> \<le> pow2 30" by (simp add: pow2_def)
  have "\<bar>(of_int ky :: rat)\<bar> \<le> of_int (10 ^ 12)"
    using y(2) by (simp only: of_int_abs [symmetric] of_int_le_iff)
  then have dy: "\<bar>of_int ky / 1000 :: rat\<bar> \<le> pow2 30" by (simp add: pow2_def)
  note rx = axis_roundtrip [OF dx hv(2)]
  note ry = axis_roundtrip [OF dy hv(2)]
  obtain g3 where g3: "sync_room sn refs rm = refs(r_name rm \<mapsto> g3)"
    "g_position g3 = \<lparr>vx = fadd (fl (of_int kx / 1000)) (Fin hv), vy = Fin 0,
                       vz = fadd (fl (of_int ky / 1000)) (Fin hv)\<rparr>"
    using g hv(1) by (auto simp: sync_room_def Let_def sz(1) x(1) y(1) split: option.splits)
  show ?thesis
    using nm found hv(1) rx ry
    by (simp add: onMouseUp_def g3 Let_def sz(1) x(1) y(1) snapTo_def)
qed

theorem coordinate_roundtrip_witness:
  "map_option (\<lambda>p. (t_x (snd p), t_y (snd p)))
     (onMouseUp (\<lambda>s. NaN) (Some ''A'')
        (sync_room (\<lambda>s. NaN)
           [''A'' \<mapsto> \<lparr>g_position = \<lparr>vx = Fin 0, vy = Fin 0, vz = Fin 0\<rparr>,
                      g_rotation = \<lparr>vx = Fin 0, vy = Fin 0, vz = Fin 0\<rparr>,
                      g_scale = \<lparr>vx = Fin 1, vy = Fin 1, vz = Fin 1\<rparr>\<rparr>]
           \<lparr>r_name = ''A'', r_size = JNum (Fin 3), r_x = JNum (fl (of_int 1250 / 1000)),
            r_y = JNum (fl (of_int (- 300) / 1000)), r_rotationY = None, r_scale = None\<rparr>)
        \<lparr>rooms = Some [\<lparr>r_name = ''A'', r_size = JNum (Fin 3),
                         r_x = JNum (fl (of_int 1250 / 1000)),
                         r_y = JNum (fl (of_int (- 300) / 1000)),
                         r_rotationY = None, r_scale = None\<rparr>]\<rparr>
        (Fin 0) True)
   = Some (fl (of_int 1250 / 1000), fl (of_int (- 300) / 1000))"
proof -
  from coordinate_roundtrip
    [of "\<lparr>r_name = ''A'', r_size = JNum (Fin 3), r_x = JNum (fl (of_int 1250 / 1000)),
          r_y = JNum (fl (of_int (- 300) / 1000)), r_rotationY = None, r_scale = None\<rparr>"
        "[''A'' \<mapsto> \<lparr>g_position = \<lparr>vx = Fin 0, vy = Fin 0, vz = Fin 0\<rparr>,
                      g_rotation = \<lparr>vx = Fin 0, vy = Fin 0, vz = Fin 0\<rparr>,
                      g_scale = \<lparr>vx = Fin 1, vy = Fin 1, vz = Fin 1\<rparr>\<rparr>]"
        "\<lparr>g_position = \<lparr>vx = Fin 0, vy = Fin 0, vz = Fin 0\<rparr>,
                      g_rotation = \<lparr>vx = Fin 0, vy = Fin 0, vz = Fin 0\<rparr>,
                      g_scale = \<lparr>vx = Fin 1, vy = Fin 1, vz = Fin 1\<rparr>\<rparr>"
        "\<lparr>rooms = Some [\<lparr>r_name = ''A'', r_size = JNum (Fin 3),
                         r_x = JNum (fl (of_int 1250 / 1000)),
                         r_y = JNum (fl (of_int (- 300) / 1000)),
                         r_rotationY = None, r_scale = None\<rparr>]\<rparr>"
        3 1250 "- 300" "\<lambda>s. NaN"]
  obtain res where
    "onMouseUp (\<lambda>s. NaN) (Some ''A'')
        (sync_room (\<lambda>s. NaN)
           [''A'' \<mapsto> \<lparr>g_position = \<lparr>vx = Fin 0, vy = Fin 0, vz = Fin 0\<rparr>,
                      g_rotation = \<lparr>vx = Fin 0, vy = Fin 0, vz = Fin 0\<rparr>,
                      g_scale = \<lparr>vx = Fin 1, vy = Fin 1, vz = Fin 1\<rparr>\<rparr>]
           \<lparr>r_name = ''A'', r_size = JNum (Fin 3), r_x = JNum (fl (of_int 1250 / 1000)),
            r_y = JNum (fl (of_int (- 300) / 1000)), r_rotationY = None, r_scale = None\<rparr>)
        \<lparr>rooms = Some [\<lparr>r_name = ''A'', r_size = JNum (Fin 3),
                         r_x = JNum (fl (of_int 1250 / 1000)),
                         r_y = JNum (fl (of_int (- 300) / 1000)),
                         r_rotationY = None, r_scale = None\<rparr>]\<rparr>
        (Fin 0) True = Some (''A'', res)"
    "t_x res = fl (of_int 1250 / 1000)" "t_y res = fl (of_int (- 300) / 1000)"
    by (auto simp: rooms_of_def)
  then show ?thesis by simp
qed

text \<open>
  Claim C1 as stated fails for a large size: with size \<open>10^20\<close> and \<open>x = 0.5\<close> the sum
  \<open>x + size / 2\<close> rounds to \<open>size / 2\<close>, and the handler reports \<open>x = 0\<close>.
\<close>

theorem coordinate_roundtrip_counterexample:
  "fl (1 / 2) = Fin (1 / 2)
   \<and> fl 100000000000000000000 = Fin 100000000000000000000
   \<and> map_option (\<lambda>p. t_x (snd p))
       (onMouseUp (\<lambda>s. NaN) (Some ''A'')
          (sync_room (\<lambda>s. NaN)
             [''A'' \<mapsto> \<lparr>g_position = \<lparr>vx = Fin 0, vy = Fin 0, vz = Fin 0\<rparr>,
                        g_rotation = \<lparr>vx = Fin 0, vy = Fin 0, vz = Fin 0\<rparr>,
                        g_scale = \<lparr>vx = Fin 1, vy = Fin 1, vz = Fin 1\<rparr>\<rparr>]
             \<lparr>r_name = ''A'', r_size = JNum (Fin 100000000000000000000),
              r_x = JNum (Fin (1 / 2)), r_y = JNum (Fin 0),
              r_rotationY = None, r_scale = None\<rparr>)
          \<lparr>rooms = Some [\<lparr>r_name = ''A'', r_size = JNum (Fin 100000000000000000000),
                           r_x = JNum (Fin (1 / 2)), r_y = JNum (Fin 0),
                           r_rotationY = None, r_scale = None\<rparr>]\<rparr>
          (Fin 0) True)
     = Some (Fin 0)
   \<and> Fin 0 \<noteq> Fin (1 / 2)"
proof -
  have d1: "fl (1 / 2) = Fin (1 / 2)" by code_simp
  have d2: "fl 100000000000000000000 = Fin 100000000000000000000" by code_simp
  have h: "fdiv (Fin 100000000000000000000) (Fin 2) = Fin 50000000000000000000" by code_simp
  have c: "fadd (Fin (1 / 2)) (Fin 50000000000000000000) = Fin 50000000000000000000"
    by code_simp
  have c0: "fadd (Fin 0) (Fin 50000000000000000000) = Fin 50000000000000000000"
    by code_simp
  have b: "to_fixed_number 3 (fsub (Fin 50000000000000000000) (Fin 50000000000000000000)) = Fin 0"
    by code_simp
  have r: "to_fixed_number 5 (Fin 0) = Fin 0" by code_simp
  have s: "to_fixed_number 5 (Fin 1) = Fin 1" by code_simp
  have j: "js_or (Fin 100000000000000000000) (Fin 3) = Fin 100000000000000000000"
    by (simp add: js_or_def)
  show ?thesis
    using d1 d2
    by (simp add: onMouseUp_def sync_room_def rooms_of_def Let_def snapTo_def j h c c0 b r s
        js_or_def del: fdiv.simps fadd.simps to_fixed_number.simps)
qed

subsection \<open>Snapping to the grid\<close>

lemma fl_not_NaN: "fl q \<noteq> NaN"
  by (simp add: fl_def Let_def)

lemma snapTo_falsy: "snapTo (Fin 0) v = v \<and> snapTo NaN v = v"
  by (simp add: snapTo_def)

lemma snapTo_finite:
  assumes "0 < s"
  shows "snapTo (Fin s) (Fin a)
           = (case fl (a / s) of Fin q \<Rightarrow> fl (of_int \<lfloor>q + 1 / 2\<rfloor> * s) | w \<Rightarrow> w)"
  using assms by (cases "fl (a / s)") (simp_all add: snapTo_def inf_of_sign_def)

lemma snapTo_not_finite:
  assumes "0 < s"
  shows "snapTo (Fin s) NaN = NaN \<and> snapTo (Fin s) PInf = PInf \<and> snapTo (Fin s) NInf = NInf"
  using assms by (simp add: snapTo_def inf_of_sign_def)

lemma floor_half: "\<lfloor>1 / 2 :: rat\<rfloor> = 0"
  by (rule floor_unique) simp_all

lemma snapTo_infinite_snap: "snapTo PInf v = NaN"
  by (cases v) (simp_all add: snapTo_def floor_half)

lemma snapTo_integer_grid:
  assumes "1 \<le> m" "m \<le> 10 ^ 6" "\<bar>a\<bar> \<le> 10 ^ 9"
  shows "\<exists>q. fl (a / of_int m) = Fin q
             \<and> snapTo (Fin (of_int m)) (Fin a) = Fin (of_int \<lfloor>q + 1 / 2\<rfloor> * of_int m)"
proof -
  have m1: "(1 :: rat) \<le> of_int m" using assms(1) by simp
  have "\<bar>a / of_int m\<bar> = \<bar>a\<bar> / of_int m" using m1 by simp
  also have "\<dots> \<le> \<bar>a\<bar> / 1" using m1 by (intro divide_left_mono) simp_all
  also have "\<dots> \<le> pow2 30" using assms(3) by (simp add: pow2_def)
  finally have "\<bar>a / of_int m\<bar> \<le> pow2 30" .
  from fl_bounded [OF this]
  obtain q where q: "fl (a / of_int m) = Fin q" "\<bar>q\<bar> \<le> pow2 30" by auto
  define n where "n = \<lfloor>q + 1 / 2\<rfloor>"
  have p30: "pow2 30 = 2 ^ 30" by (simp add: pow2_def)
  have "n \<le> 2 ^ 30"
  proof -
    have "q + 1 / 2 < of_int (2 ^ 30 + 1)" using q(2) by (simp add: p30 abs_le_iff)
    then have "n < 2 ^ 30 + 1" unfolding n_def by (simp only: floor_less_iff)
    then show ?thesis by simp
  qed
  moreover have "- (2 ^ 30) \<le> n"
  proof -
    have "of_int (- (2 ^ 30)) \<le> q + 1 / 2" using q(2) by (simp add: p30 abs_le_iff)
    then show ?thesis unfolding n_def by (simp only: le_floor_iff)
  qed
  ultimately have na: "\<bar>n\<bar> \<le> 2 ^ 30" by simp
  have "\<bar>n * m\<bar> = \<bar>n\<bar> * \<bar>m\<bar>" by (rule abs_mult)
  also have "\<dots> \<le> 2 ^ 30 * 10 ^ 6"
    using na assms(1,2) by (intro mult_mono) simp_all
  also have "\<dots> < 2 ^ 53" by simp
  finally have "\<bar>n * m\<bar> < 2 ^ 53" .
  from fl_int_abs [OF this] have prod: "fl (of_int n * of_int m) = Fin (of_int n * of_int m)"
    by simp
  have "snapTo (Fin (of_int m)) (Fin a) = fl (of_int n * of_int m)"
    using assms(1) by (simp add: snapTo_def q(1) n_def)
  with prod q(1) show ?thesis by (simp add: n_def)
qed

lemma onMouseUp_fires:
  assumes "nm \<noteq> []" "refs nm = Some grp"
  shows "onMouseUp sn (Some nm) refs l snap True
    = Some (nm,
        \<lparr>t_x = snapTo snap (to_fixed_number 3 (fsub (vx (g_position grp))
                 (fdiv (js_or (to_number sn (case find (\<lambda>r. r_name r = nm) (rooms_of l) of
                                                 None \<Rightarrow> JUndefined | Some r \<Rightarrow> r_size r))
                          (Fin 3)) (Fin 2)))),
         t_y = snapTo snap (to_fixed_number 3 (fsub (vz (g_position grp))
                 (fdiv (js_or (to_number sn (case find (\<lambda>r. r_name r = nm) (rooms_of l) of
                                                 None \<Rightarrow> JUndefined | Some r \<Rightarrow> r_size r))
                          (Fin 3)) (Fin 2)))),
         t_rotationY = to_fixed_number 5 (js_or (vy (g_rotation grp)) (Fin 0)),
         t_scale = to_fixed_number 5 (js_or (vx (g_scale grp)) (Fin 1))\<rparr>)"
  using assms by (simp add: onMouseUp_def Let_def)

text \<open>
  Claim C2, as amended. When the handler fires it passes to \<^verbatim>\<open>onTransformEnd\<close> the
  \<open>snapTo\<close> of the top-left \<open>x\<close> and \<open>y\<close> (each rounded to 3 decimals first), and the
  rotation and the scale rounded to 5 decimals and not snapped. A falsy snap (0 or NaN)
  snaps nothing. A finite snap \<open>s > 0\<close> turns a finite value \<open>v\<close> into
  \<open>Math.round(v / s) * s\<close> in double arithmetic: with \<open>q\<close> the double quotient \<open>v / s\<close>
  and \<open>n\<close> the whole number \<open>floor (q + 1/2)\<close> it is the double nearest to \<open>n * s\<close>, and
  it is the infinity the quotient overflows to when it does; a NaN or infinite value is
  passed on as it is. The snap \<open>Infinity\<close> turns every value into NaN. For a whole snap
  from 1 to \<open>10^6\<close> and a value of magnitude up to \<open>10^9\<close> the result is \<open>n * s\<close> itself.
\<close>

theorem grid_snapping:
  "(nm \<noteq> [] \<and> refs nm = Some grp \<longrightarrow>
      onMouseUp sn (Some nm) refs l snap True
        = Some (nm,
            \<lparr>t_x = snapTo snap (to_fixed_number 3 (fsub (vx (g_position grp))
                 (fdiv (js_or (to_number sn (case find (\<lambda>r. r_name r = nm) (rooms_of l) of
                                                 None \<Rightarrow> JUndefined | Some r \<Rightarrow> r_size r))
                          (Fin 3)) (Fin 2)))),
             t_y = snapTo snap (to_fixed_number 3 (fsub (vz (g_position grp))
                 (fdiv (js_or (to_number sn (case find (\<lambda>r. r_name r = nm) (rooms_of l) of
                                                 None \<Rightarrow> JUndefined | Some r \<Rightarrow> r_size r))
                          (Fin 3)) (Fin 2)))),
             t_rotationY = to_fixed_number 5 (js_or (vy (g_rotation grp)) (Fin 0)),
             t_scale = to_fixed_number 5 (js_or (vx (g_scale grp)) (Fin 1))\<rparr>))
   \<and> snapTo (Fin 0) v = v
   \<and> snapTo NaN v = v
   \<and> (0 < s \<longrightarrow>
        snapTo (Fin s) (Fin a)
          = (case fl (a / s) of Fin q \<Rightarrow> fl (of_int \<lfloor>q + 1 / 2\<rfloor> * s) | w \<Rightarrow> w)
        \<and> snapTo (Fin s) NaN = NaN
        \<and> snapTo (Fin s) PInf = PInf
        \<and> snapTo (Fin s) NInf = NInf)
   \<and> snapTo PInf v = NaN
   \<and> (1 \<le> m \<and> m \<le> 10 ^ 6 \<and> \<bar>a\<bar> \<le> 10 ^ 9 \<longrightarrow>
        (\<exists>q. fl (a / of_int m) = Fin q
            \<and> snapTo (Fin (of_int m)) (Fin a) = Fin (of_int \<lfloor>q + 1 / 2\<rfloor> * of_int m)))"
  using onMouseUp_fires [of nm refs grp sn l snap] snapTo_falsy [of v]
    snapTo_finite [of s a] snapTo_not_finite [of s] snapTo_infinite_snap [of v]
    snapTo_integer_grid [of m a]
  by blast

theorem grid_snapping_witness:
  "map_option (\<lambda>p. (t_x (snd p), t_y (snd p)))
     (onMouseUp (\<lambda>s. NaN) (Some ''A'')
        [''A'' \<mapsto> \<lparr>g_position = \<lparr>vx = Fin (19 / 4), vy = Fin 0, vz = Fin (3 / 2)\<rparr>,
                   g_rotation = \<lparr>vx = Fin 0, vy = Fin 0, vz = Fin 0\<rparr>,
                   g_scale = \<lparr>vx = Fin 1, vy = Fin 1, vz = Fin 1\<rparr>\<rparr>]
        \<lparr>rooms = Some [\<lparr>r_name = ''A'', r_size = JNum (Fin 3), r_x = JNum (Fin 0),
                         r_y = JNum (Fin 0), r_rotationY = None, r_scale = None\<rparr>]\<rparr>
        (Fin 2) True)
     = Some (Fin 4, Fin 0)
   \<and> snapTo (Fin 0) (Fin (13 / 4)) = Fin (13 / 4)
   \<and> snapTo (Fin 2) (Fin (13 / 4)) = Fin 4
   \<and> fl ((13 / 4) / 2) = Fin (13 / 8)
   \<and> snapTo PInf (Fin (13 / 4)) = NaN"
proof -
  have h: "fdiv (Fin 3) (Fin 2) = Fin (3 / 2)" by code_simp
  have x: "to_fixed_number 3 (fsub (Fin (19 / 4)) (Fin (3 / 2))) = Fin (13 / 4)" by code_simp
  have y: "to_fixed_number 3 (fsub (Fin (3 / 2)) (Fin (3 / 2))) = Fin 0" by code_simp
  have sx: "snapTo (Fin 2) (Fin (13 / 4)) = Fin 4" by code_simp
  have sy: "snapTo (Fin 2) (Fin 0) = Fin 0" by code_simp
  have q: "fl (13 / 8) = Fin (13 / 8)" by code_simp
  have j: "js_or (Fin 3) (Fin 3) = Fin 3" by (simp add: js_or_def)
  from grid_snapping
    [of "''A''"
        "[''A'' \<mapsto> \<lparr>g_position = \<lparr>vx = Fin (19 / 4), vy = Fin 0, vz = Fin (3 / 2)\<rparr>,
                   g_rotation = \<lparr>vx = Fin 0, vy = Fin 0, vz = Fin 0\<rparr>,
                   g_scale = \<lparr>vx = Fin 1, vy = Fin 1, vz = Fin 1\<rparr>\<rparr>]"
        "\<lparr>g_position = \<lparr>vx = Fin (19 / 4), vy = Fin 0, vz = Fin (3 / 2)\<rparr>,
                   g_rotation = \<lparr>vx = Fin 0, vy = Fin 0, vz = Fin 0\<rparr>,
                   g_scale = \<lparr>vx = Fin 1, vy = Fin 1, vz = Fin 1\<rparr>\<rparr>"
        "\<lambda>s. NaN"
        "\<lparr>rooms = Some [\<lparr>r_name = ''A'', r_size = JNum (Fin 3), r_x = JNum (Fin 0),
                         r_y = JNum (Fin 0), r_rotationY = None, r_scale = None\<rparr>]\<rparr>"
        "Fin 2" "Fin (13 / 4)" 2 "13 / 4" 2]
  show ?thesis
    by (simp add: rooms_of_def j h x y sx sy q del: fdiv.simps)
qed

text \<open>
  Claim C2 as stated fails for the snap \<open>0.1\<close>: a group dragged to \<open>x = 1.8\<close> in a room
  of size 3 is reported at \<open>0.30000000000000004\<close>, which is not a whole multiple of the
  snap (the quotient is not a whole number).
\<close>

theorem grid_snapping_counterexample:
  "fl (1 / 10) = Fin (3602879701896397 / 36028797018963968)
   \<and> map_option (\<lambda>p. t_x (snd p))
       (onMouseUp (\<lambda>s. NaN) (Some ''A'')
          [''A'' \<mapsto> \<lparr>g_position = \<lparr>vx = fl (9 / 5), vy = Fin 0, vz = Fin (3 / 2)\<rparr>,
                     g_rotation = \<lparr>vx = Fin 0, vy = Fin 0, vz = Fin 0\<rparr>,
                     g_scale = \<lparr>vx = Fin 1, vy = Fin 1, vz = Fin 1\<rparr>\<rparr>]
          \<lparr>rooms = Some [\<lparr>r_name = ''A'', r_size = JNum (Fin 3), r_x = JNum (Fin 0),
                           r_y = JNum (Fin 0), r_rotationY = None, r_scale = None\<rparr>]\<rparr>
          (fl (1 / 10)) True)
     = Some (Fin (1351079888211149 / 4503599627370496))
   \<and> of_int \<lfloor>(1351079888211149 / 4503599627370496)
                / (3602879701896397 / 36028797018963968 :: rat)\<rfloor>
       \<noteq> ((1351079888211149 / 4503599627370496)
           / (3602879701896397 / 36028797018963968) :: rat)"
proof -
  have t: "fl (1 / 10) = Fin (3602879701896397 / 36028797018963968)" by code_simp
  have h: "fdiv (Fin 3) (Fin 2) = Fin (3 / 2)" by code_simp
  have x: "to_fixed_number 3 (fsub (fl (9 / 5)) (Fin (3 / 2)))
             = Fin (5404319552844595 / 18014398509481984)" by code_simp
  have sx: "snapTo (fl (1 / 10)) (Fin (5404319552844595 / 18014398509481984))
             = Fin (1351079888211149 / 4503599627370496)" by code_simp
  have j: "js_or (Fin 3) (Fin 3) = Fin 3" by (simp add: js_or_def)
  have q: "of_int \<lfloor>(1351079888211149 / 4503599627370496)
                / (3602879701896397 / 36028797018963968 :: rat)\<rfloor>
       \<noteq> ((1351079888211149 / 4503599627370496)
           / (3602879701896397 / 36028797018963968) :: rat)" by code_simp
  have run: "map_option (\<lambda>p. t_x (snd p))
       (onMouseUp (\<lambda>s. NaN) (Some ''A'')
          [''A'' \<mapsto> \<lparr>g_position = \<lparr>vx = fl (9 / 5), vy = Fin 0, vz = Fin (3 / 2)\<rparr>,
                     g_rotation = \<lparr>vx = Fin 0, vy = Fin 0, vz = Fin 0\<rparr>,
                     g_scale = \<lparr>vx = Fin 1, vy = Fin 1, vz = Fin 1\<rparr>\<rparr>]
          \<lparr>rooms = Some [\<lparr>r_name = ''A'', r_size = JNum (Fin 3), r_x = JNum (Fin 0),
                           r_y = JNum (Fin 0), r_rotationY = None, r_scale = None\<rparr>]\<rparr>
          (fl (1 / 10)) True)
     = Some (Fin (1351079888211149 / 4503599627370496))"
    by (simp add: onMouseUp_def rooms_of_def Let_def j h x sx del: fdiv.simps)
  from t run q show ?thesis by (intro conjI)
qed

end
